theory Spec2Isabelle
  imports Main "HOL-Library.Sublist" "HOL-Library.AList"
begin

section \<open>Go string primitives\<close>

text \<open>
  A Go string is a sequence of bytes; \<^typ>\<open>string\<close> is a list of 8-bit characters.
  The functions below are the standard-library functions the sources call, at the
  arguments they are called with.
\<close>

definition LF :: char where
  "LF = CHR 0x0A"

definition CR :: char where
  "CR = CHR 0x0D"

text \<open>\<open>strings.Contains(s, substr)\<close>.\<close>

fun Contains :: "string \<Rightarrow> string \<Rightarrow> bool" where
  "Contains [] sub = (sub = [])"
| "Contains (c # cs) sub = (prefix sub (c # cs) \<or> Contains cs sub)"

definition HasSuffix :: "string \<Rightarrow> string \<Rightarrow> bool" where
  "HasSuffix s suf = suffix suf s"

text \<open>\<open>strings.Split(s, "\n")\<close>: the result always has at least one element.\<close>

fun Split_nl :: "string \<Rightarrow> string list" where
  "Split_nl [] = [[]]"
| "Split_nl (c # cs) =
     (if c = LF then [] # Split_nl cs
      else (c # hd (Split_nl cs)) # tl (Split_nl cs))"

text \<open>\<open>strings.Join(lines, "\n")\<close>.\<close>

fun Join_nl :: "string list \<Rightarrow> string" where
  "Join_nl [] = []"
| "Join_nl [l] = l"
| "Join_nl (l # l' # ls) = l @ LF # Join_nl (l' # ls)"

text \<open>Decimal rendering, as \<open>%d\<close> prints an int.\<close>

definition digit_char :: "int \<Rightarrow> char" where
  "digit_char d = char_of (48 + d)"

function dec_digits :: "int \<Rightarrow> string" where
  "dec_digits n =
     (if n < 10 then [digit_char n] else dec_digits (n div 10) @ [digit_char (n mod 10)])"
  by pat_completeness auto
termination
  by (relation "measure nat") auto

declare dec_digits.simps [simp del]

definition itoa :: "int \<Rightarrow> string" where
  "itoa i = (if i < 0 then CHR ''-'' # dec_digits (- i) else dec_digits i)"

section \<open>Configuration: config.go\<close>

text \<open>
  Go's \<open>int\<close> is the signed 64-bit integer on every platform the daemon supports
  (darwin-amd64, darwin-arm64). Values are modelled as \<^typ>\<open>int\<close>; the range and the
  wrap-around are written out where the code can reach them (scanning a range string,
  the loop counter of a port range).
\<close>

definition MinInt64 :: int where
  "MinInt64 = - 9223372036854775808"

definition MaxInt64 :: int where
  "MaxInt64 = 9223372036854775807"

definition in_int64 :: "int \<Rightarrow> bool" where
  "in_int64 x = (MinInt64 \<le> x \<and> x \<le> MaxInt64)"

definition wrap64 :: "int \<Rightarrow> int" where
  "wrap64 x = (x + 9223372036854775808) mod 18446744073709551616 - 9223372036854775808"

text \<open>An element of \<open>Ports []interface{}\<close>: an int, a string, or a value of any other type.\<close>

datatype port_spec = PInt int | PStr string | POther

record HostConfig =
  LocalIP :: string
  Hostnames :: "string list"
  RemoteHost :: string
  JumpHost :: string
  JumpPort :: int
  KeyPath :: string
  IdentityAgent :: string
  Ports :: "port_spec list"

record ForwardConfig =
  fLocalIP :: string
  fRemoteHost :: string
  fPort :: int
  fListenPort :: int
  fJumpHost :: string
  fJumpPort :: int
  fKeyPath :: string
  fIdentityAgent :: string

definition DefaultKeyPath :: string where
  "DefaultKeyPath = ''~/.ssh/id_rsa''"

definition SSHDefaultPort :: int where
  "SSHDefaultPort = 22"

text \<open>
  \<open>NewForwardConfig\<close>. The addition \<open>10000 + port\<close> is only evaluated for
  \<open>port < 1024\<close>, where it cannot leave the 64-bit range.
\<close>

definition NewForwardConfig :: "HostConfig \<Rightarrow> int \<Rightarrow> ForwardConfig" where
  "NewForwardConfig host port =
     (let listenPort = (if port < 1024 then 10000 + port else port)
      in \<lparr> fLocalIP = LocalIP host,
           fRemoteHost = RemoteHost host,
           fPort = port,
           fListenPort = listenPort,
           fJumpHost = JumpHost host,
           fJumpPort = JumpPort host,
           fKeyPath = KeyPath host,
           fIdentityAgent = IdentityAgent host \<rparr>)"

definition NeedsPFRedirect :: "ForwardConfig \<Rightarrow> bool" where
  "NeedsPFRedirect fc = (fPort fc \<noteq> fListenPort fc)"

subsection \<open>Scanning a range string: \<open>fmt.Sscanf(v, "%d-%d", &start, &end)\<close>\<close>

text \<open>
  The scanner of package \<open>fmt\<close>, at the one format the code uses. A white-space rune is
  one of U+0009..U+000D, U+0020, U+0085, U+00A0, U+1680, U+2000..U+200A, U+2028, U+2029,
  U+202F, U+205F, U+3000; \<open>space_runes\<close> lists their UTF-8 encodings except the newline,
  which \<open>SkipSpace\<close> treats on its own.
\<close>

definition space_runes :: "string list" where
  "space_runes =
     [[CHR 0x09], [CHR 0x0B], [CHR 0x0C], [CHR 0x0D], [CHR 0x20],
      [CHR 0xC2, CHR 0x85], [CHR 0xC2, CHR 0xA0], [CHR 0xE1, CHR 0x9A, CHR 0x80],
      [CHR 0xE2, CHR 0x80, CHR 0x80], [CHR 0xE2, CHR 0x80, CHR 0x81],
      [CHR 0xE2, CHR 0x80, CHR 0x82], [CHR 0xE2, CHR 0x80, CHR 0x83],
      [CHR 0xE2, CHR 0x80, CHR 0x84], [CHR 0xE2, CHR 0x80, CHR 0x85],
      [CHR 0xE2, CHR 0x80, CHR 0x86], [CHR 0xE2, CHR 0x80, CHR 0x87],
      [CHR 0xE2, CHR 0x80, CHR 0x88], [CHR 0xE2, CHR 0x80, CHR 0x89],
      [CHR 0xE2, CHR 0x80, CHR 0x8A], [CHR 0xE2, CHR 0x80, CHR 0xA8],
      [CHR 0xE2, CHR 0x80, CHR 0xA9], [CHR 0xE2, CHR 0x80, CHR 0xAF],
      [CHR 0xE2, CHR 0x81, CHR 0x9F], [CHR 0xE3, CHR 0x80, CHR 0x80]]"

text \<open>The number of bytes of the white-space rune at the head of the input, 0 if there is none.\<close>

definition space_len :: "string \<Rightarrow> nat" where
  "space_len s = (case filter (\<lambda>r. prefix r s) space_runes of [] \<Rightarrow> 0 | r # _ \<Rightarrow> length r)"

text \<open>
  \<open>ss.SkipSpace\<close> with \<open>nlIsSpace = false\<close>, as \<open>Sscanf\<close> sets it: a newline in the
  skipped white space is the error "unexpected newline" (\<open>None\<close>).
\<close>

function SkipSpace :: "string \<Rightarrow> string option" where
  "SkipSpace s =
     (case s of
        [] \<Rightarrow> Some []
      | c # cs \<Rightarrow>
          if c = CR \<and> cs \<noteq> [] \<and> hd cs = LF then SkipSpace cs
          else if c = LF then None
          else if space_len s = 0 then Some s
          else SkipSpace (drop (space_len s) s))"
  by pat_completeness auto
termination
  by (relation "measure length") auto

declare SkipSpace.simps [simp del]

definition is_digit :: "char \<Rightarrow> bool" where
  "is_digit c = (48 \<le> (of_char c :: nat) \<and> (of_char c :: nat) \<le> 57)"

definition digit_val :: "char \<Rightarrow> int" where
  "digit_val c = of_char c - 48"

definition dec_val :: "string \<Rightarrow> int" where
  "dec_val ds = foldl (\<lambda>a c. 10 * a + digit_val c) 0 ds"

text \<open>
  \<open>ss.scanInt\<close> for the verb \<open>%d\<close> into an \<open>int\<close>: skip white space, fail at the end
  of the input, accept one sign, then at least one decimal digit; \<open>strconv.ParseInt\<close>
  fails when the value is outside the signed 64-bit range. The result is the value and
  the rest of the input.
\<close>

definition scanInt :: "string \<Rightarrow> (int \<times> string) option" where
  "scanInt s =
     (case SkipSpace s of
        None \<Rightarrow> None
      | Some s1 \<Rightarrow>
          (case s1 of
             [] \<Rightarrow> None
           | c # cs \<Rightarrow>
               let neg = (c = CHR ''-'');
                   s2 = (if c = CHR ''+'' \<or> c = CHR ''-'' then cs else s1);
                   ds = takeWhile is_digit s2;
                   v = (if neg then - dec_val ds else dec_val ds)
               in if ds = [] then None
                  else if in_int64 v then Some (v, dropWhile is_digit s2)
                  else None))"

text \<open>
  \<open>Sscanf\<close> with the format \<open>%d-%d\<close>: an integer, the literal \<open>-\<close>, an integer.
  Input left over after the second integer is not looked at. \<open>Some (start, end)\<close>
  stands for \<open>n = 2\<close> and \<open>err = nil\<close>, \<open>None\<close> for every other outcome.
\<close>

definition Sscanf_range :: "string \<Rightarrow> (int \<times> int) option" where
  "Sscanf_range v =
     (case scanInt v of
        None \<Rightarrow> None
      | Some (a, r1) \<Rightarrow>
          (case r1 of
             [] \<Rightarrow> None
           | c # r2 \<Rightarrow>
               if c \<noteq> CHR ''-'' then None
               else (case scanInt r2 of None \<Rightarrow> None | Some (b, r3) \<Rightarrow> Some (a, b))))"

subsection \<open>\<open>ExpandPorts\<close>\<close>

datatype port_error =
    InvalidRangeFormat string
  | ReversedRange string int int
  | InvalidPortSpec

text \<open>
  \<open>portsMap[p] = true\<close> on the key set of \<open>map[int]bool\<close>. The keys are kept in
  insertion order; Go iterates a map in an unspecified order, so the order of the
  resulting slice is one of the orders the program can produce.
\<close>

definition map_set :: "int \<Rightarrow> int list \<Rightarrow> int list" where
  "map_set p m = (if p \<in> set m then m else m @ [p])"

text \<open>
  \<open>for p := start; p <= end; p++ { portsMap[p] = true }\<close>. The increment wraps at
  \<open>MaxInt64\<close>, so the loop does not end when \<open>end = MaxInt64\<close>: the value is \<open>None\<close>.
\<close>

partial_function (option) range_loop :: "int \<Rightarrow> int \<Rightarrow> int list \<Rightarrow> int list option" where
  "range_loop p e m =
     (if p \<le> e then range_loop (wrap64 (p + 1)) e (map_set p m) else Some m)"

declare range_loop.simps [code]

fun expand_loop :: "port_spec list \<Rightarrow> int list \<Rightarrow> (port_error + int list) option" where
  "expand_loop [] m = Some (Inr m)"
| "expand_loop (PInt v # ps) m = expand_loop ps (map_set v m)"
| "expand_loop (PStr v # ps) m =
     (case Sscanf_range v of
        None \<Rightarrow> Some (Inl (InvalidRangeFormat v))
      | Some (start, end) \<Rightarrow>
          if start > end then Some (Inl (ReversedRange v start end))
          else (case range_loop start end m of
                  None \<Rightarrow> None
                | Some m' \<Rightarrow> expand_loop ps m'))"
| "expand_loop (POther # ps) m = Some (Inl InvalidPortSpec)"

definition ExpandPorts :: "HostConfig \<Rightarrow> (port_error + int list) option" where
  "ExpandPorts config = expand_loop (Ports config) []"

text \<open>The host of the specification's scenarios A and F, used for concrete runs.\<close>

definition example_host :: HostConfig where
  "example_host =
     \<lparr> LocalIP = ''127.0.0.2'', Hostnames = [''app.internal.example.com''],
       RemoteHost = ''app.internal.example.com'', JumpHost = ''jump.example.com'',
       JumpPort = 22, KeyPath = ''~/.ssh/id_rsa'', IdentityAgent = [],
       Ports = [PInt 80, PInt 443, PStr ''5432-5433'', PInt 80] \<rparr>"

section \<open>SSH client pool: ssh.go\<close>

text \<open>
  What the pool does not compute itself comes from the environment of one call: the
  outcome of \<open>loadSSHAuthMethods\<close> at each attempt, of \<open>user.Current\<close> and of \<open>ssh.Dial\<close>
  at each attempt (\<open>Inl\<close> and \<open>Some\<close> carry the text of the error). A transport handle
  (\<open>*ssh.Client\<close>) is identified by the number of its allocation.
\<close>

datatype auth_method = PublicKeys string | KeyboardInteractive

record pool_env =
  loadSSHAuthMethods :: "nat \<Rightarrow> string \<Rightarrow> string \<Rightarrow> string + auth_method list"
  currentUser :: "string + string"
  sshDial :: "nat \<Rightarrow> string \<Rightarrow> string option"

record SSHClientPool =
  clients :: "(string \<times> nat) list"
  authMethods :: "(string \<times> auth_method list) list"
  closedClients :: "nat list"
  nextClient :: nat

definition NewSSHClientPool :: SSHClientPool where
  "NewSSHClientPool = \<lparr> clients = [], authMethods = [], closedClients = [], nextClient = 0 \<rparr>"

definition authCacheKey :: "string \<Rightarrow> string \<Rightarrow> string" where
  "authCacheKey keyPath identityAgent =
     (if identityAgent \<noteq> [] then keyPath @ ''|'' @ identityAgent else keyPath)"

definition clientKey :: "string \<Rightarrow> int \<Rightarrow> string" where
  "clientKey jumpHost jumpPort = jumpHost @ '':'' @ itoa jumpPort"

text \<open>\<open>LoadAuthMethods\<close>, at the given attempt of the retry loop.\<close>

definition LoadAuthMethods ::
  "pool_env \<Rightarrow> nat \<Rightarrow> string \<Rightarrow> string \<Rightarrow> SSHClientPool \<Rightarrow> string option \<times> SSHClientPool" where
  "LoadAuthMethods env attempt keyPath identityAgent pool =
     (let cacheKey = authCacheKey keyPath identityAgent
      in case map_of (authMethods pool) cacheKey of
           Some a \<Rightarrow> (None, pool)
         | None \<Rightarrow>
             (case loadSSHAuthMethods env attempt keyPath identityAgent of
                Inl err \<Rightarrow> (Some (''failed to load SSH auth methods: '' @ err), pool)
              | Inr am \<Rightarrow>
                  (None, pool\<lparr>authMethods := AList.update cacheKey am (authMethods pool)\<rparr>)))"

text \<open>
  \<open>LoadAuthMethodsWithRetry\<close>: the loop has no bound; while the agent socket stays
  unavailable the call does not return (\<open>None\<close>). The argument is the number of attempts
  made so far.
\<close>

partial_function (option) LoadAuthMethodsWithRetry ::
  "pool_env \<Rightarrow> string \<Rightarrow> string \<Rightarrow> nat \<Rightarrow> SSHClientPool \<Rightarrow> (string option \<times> SSHClientPool) option" where
  "LoadAuthMethodsWithRetry env keyPath identityAgent attempt pool =
     (case LoadAuthMethods env (Suc attempt) keyPath identityAgent pool of
        (None, pool') \<Rightarrow> Some (None, pool')
      | (Some errStr, pool') \<Rightarrow>
          if \<not> (Contains errStr ''connection refused'' \<or> Contains errStr ''no such file'')
          then Some (Some (''failed to load SSH auth methods: '' @ errStr), pool')
          else LoadAuthMethodsWithRetry env keyPath identityAgent (Suc attempt) pool')"

declare LoadAuthMethodsWithRetry.simps [code]

text \<open>
  The dial loop of \<open>GetClient\<close>: \<open>maxRetries = 3\<close>; the second argument counts the
  attempts left after this one.
\<close>

fun dial_loop :: "pool_env \<Rightarrow> string \<Rightarrow> nat \<Rightarrow> nat \<Rightarrow> string option" where
  "dial_loop env jumpAddr attempt 0 =
     (case sshDial env attempt jumpAddr of
        None \<Rightarrow> None
      | Some errStr \<Rightarrow>
          Some (''failed to dial jump host '' @ jumpAddr @ '' (attempt '' @ itoa (int attempt)
                @ ''/3): '' @ errStr))"
| "dial_loop env jumpAddr attempt (Suc left) =
     (case sshDial env attempt jumpAddr of
        None \<Rightarrow> None
      | Some errStr \<Rightarrow>
          if \<not> (Contains errStr ''agent:'' \<or> Contains errStr ''broken pipe'' \<or> Contains errStr ''EOF'')
          then Some (''failed to dial jump host '' @ jumpAddr @ '' (attempt '' @ itoa (int attempt)
                     @ ''/3): '' @ errStr)
          else dial_loop env jumpAddr (Suc attempt) left)"

text \<open>
  \<open>GetClient\<close> in three parts, cut where the code releases \<open>pool.mu\<close>.
  \<open>gc_lookup\<close> is the part from \<open>pool.mu.Lock()\<close> to the test of the cached auth methods:
  a cached client is returned at once; \<open>Inr True\<close> says the auth methods are cached and
  not empty, \<open>Inr False\<close> that the mutex is released to load them.
\<close>

definition gc_lookup ::
  "string \<Rightarrow> int \<Rightarrow> string \<Rightarrow> string \<Rightarrow> SSHClientPool \<Rightarrow> nat + bool" where
  "gc_lookup jumpHost jumpPort keyPath identityAgent pool =
     (case map_of (clients pool) (clientKey jumpHost jumpPort) of
        Some client \<Rightarrow> Inl client
      | None \<Rightarrow>
          (case map_of (authMethods pool) (authCacheKey keyPath identityAgent) of
             None \<Rightarrow> Inr False
           | Some am \<Rightarrow> Inr (am \<noteq> [])))"

text \<open>
  \<open>gc_load\<close> is the part without the mutex: \<open>LoadAuthMethodsWithRetry\<close>, then the check
  of its error and of the loaded methods after the mutex is taken again.
\<close>

definition gc_load ::
  "pool_env \<Rightarrow> string \<Rightarrow> string \<Rightarrow> SSHClientPool \<Rightarrow> (string option \<times> SSHClientPool) option" where
  "gc_load env keyPath identityAgent pool =
     (case LoadAuthMethodsWithRetry env keyPath identityAgent 0 pool of
        None \<Rightarrow> None
      | Some (Some err, pool') \<Rightarrow> Some (Some (''failed to load SSH auth methods: '' @ err), pool')
      | Some (None, pool') \<Rightarrow>
          (case map_of (authMethods pool') (authCacheKey keyPath identityAgent) of
             None \<Rightarrow>
               Some (Some (''no authentication methods available for key '' @ keyPath
                           @ '' after loading''), pool')
           | Some am \<Rightarrow>
               if am = []
               then Some (Some (''no authentication methods available for key '' @ keyPath
                                @ '' after loading''), pool')
               else Some (None, pool')))"

text \<open>
  \<open>gc_connect\<close> is the rest: the current user, the dial loop, and the store of the new
  client under the client key. The store does not look at the cache again.
\<close>

definition gc_connect ::
  "pool_env \<Rightarrow> string \<Rightarrow> int \<Rightarrow> SSHClientPool \<Rightarrow> (string + nat) \<times> SSHClientPool" where
  "gc_connect env jumpHost jumpPort pool =
     (case currentUser env of
        Inl err \<Rightarrow> (Inl (''failed to get current user: '' @ err), pool)
      | Inr username \<Rightarrow>
          (case dial_loop env (clientKey jumpHost jumpPort) 1 2 of
             Some err \<Rightarrow> (Inl err, pool)
           | None \<Rightarrow>
               (Inr (nextClient pool),
                pool\<lparr>clients := AList.update (clientKey jumpHost jumpPort) (nextClient pool) (clients pool),
                     nextClient := Suc (nextClient pool)\<rparr>)))"

text \<open>One call of \<open>GetClient\<close> that runs alone; \<open>None\<close>: the call does not return.\<close>

definition GetClient ::
  "pool_env \<Rightarrow> string \<Rightarrow> int \<Rightarrow> string \<Rightarrow> string \<Rightarrow> SSHClientPool
     \<Rightarrow> ((string + nat) \<times> SSHClientPool) option" where
  "GetClient env jumpHost jumpPort keyPath identityAgent pool =
     (case gc_lookup jumpHost jumpPort keyPath identityAgent pool of
        Inl client \<Rightarrow> Some (Inr client, pool)
      | Inr True \<Rightarrow> Some (gc_connect env jumpHost jumpPort pool)
      | Inr False \<Rightarrow>
          (case gc_load env keyPath identityAgent pool of
             None \<Rightarrow> None
           | Some (Some err, pool') \<Rightarrow> Some (Inl err, pool')
           | Some (None, pool') \<Rightarrow> Some (gc_connect env jumpHost jumpPort pool')))"

definition RemoveClient :: "string \<Rightarrow> int \<Rightarrow> SSHClientPool \<Rightarrow> SSHClientPool" where
  "RemoveClient jumpHost jumpPort pool =
     (case map_of (clients pool) (clientKey jumpHost jumpPort) of
        Some client \<Rightarrow>
          pool\<lparr>closedClients := closedClients pool @ [client],
               clients := AList.delete (clientKey jumpHost jumpPort) (clients pool)\<rparr>
      | None \<Rightarrow> pool)"

text \<open>\<open>SSHClientPool.Close\<close> closes every client and leaves the map as it is.\<close>

definition pool_Close :: "SSHClientPool \<Rightarrow> SSHClientPool" where
  "pool_Close pool = pool\<lparr>closedClients := closedClients pool @ map snd (clients pool)\<rparr>"

section \<open>Network setup: network.go\<close>

text \<open>
  \<open>runHelper\<close> starts the privileged helper as a process of its own. The engine sees
  whether the process succeeded; the model appends the invocation to a trace of the
  engine's effects and takes the outcome from the environment, which may look at the
  trace so far. An undo closure is the record of what it will undo.
\<close>

datatype undo =
    UndoAlias string
  | UndoHosts string "string list"
  | UndoPFRedirect string int int
  | UndoNothing

datatype event =
    Helper "string list"
  | CallUndo undo
  | SetRunning bool
  | CloseStatusChan
  | ClosePool
  | Spawn ForwardConfig
  | Splice ForwardConfig

datatype error =
    AlreadyRunning
  | ReloadFailed string
  | HelperFailed "string list"
  | ExpandFailed port_error

type_synonym helper_oracle = "event list \<Rightarrow> string list \<Rightarrow> bool"

definition runHelper :: "helper_oracle \<Rightarrow> string list \<Rightarrow> event list \<Rightarrow> bool \<times> event list" where
  "runHelper ok args tr = (ok tr args, tr @ [Helper args])"

definition SetupLoopbackAlias ::
  "helper_oracle \<Rightarrow> string \<Rightarrow> event list \<Rightarrow> (error + undo) \<times> event list" where
  "SetupLoopbackAlias ok ip tr =
     (case runHelper ok [''add-alias'', ip] tr of
        (False, tr') \<Rightarrow> (Inl (HelperFailed [''add-alias'', ip]), tr')
      | (True, tr') \<Rightarrow> (Inr (UndoAlias ip), tr'))"

fun add_hosts_loop ::
  "helper_oracle \<Rightarrow> string \<Rightarrow> string list \<Rightarrow> event list \<Rightarrow> error option \<times> event list" where
  "add_hosts_loop ok ip [] tr = (None, tr)"
| "add_hosts_loop ok ip (hostname # rest) tr =
     (case runHelper ok [''add-host'', ip, hostname] tr of
        (False, tr') \<Rightarrow> (Some (HelperFailed [''add-host'', ip, hostname]), tr')
      | (True, tr') \<Rightarrow> add_hosts_loop ok ip rest tr')"

definition AddHostsEntries ::
  "helper_oracle \<Rightarrow> string \<Rightarrow> string list \<Rightarrow> event list \<Rightarrow> (error + undo) \<times> event list" where
  "AddHostsEntries ok ip hostnames tr =
     (if hostnames = [] then (Inr UndoNothing, tr)
      else (case add_hosts_loop ok ip hostnames tr of
              (Some e, tr') \<Rightarrow> (Inl e, tr')
            | (None, tr') \<Rightarrow> (Inr (UndoHosts ip hostnames), tr')))"

definition SetupPFRedirect ::
  "helper_oracle \<Rightarrow> string \<Rightarrow> int \<Rightarrow> int \<Rightarrow> event list \<Rightarrow> (error + undo) \<times> event list" where
  "SetupPFRedirect ok ip fromPort toPort tr =
     (case runHelper ok [''add-pf-redirect'', ip, itoa fromPort, itoa toPort] tr of
        (False, tr') \<Rightarrow> (Inl (HelperFailed [''add-pf-redirect'', ip, itoa fromPort, itoa toPort]), tr')
      | (True, tr') \<Rightarrow> (Inr (UndoPFRedirect ip fromPort toPort), tr'))"

text \<open>Calling an undo closure; the result is the error the closure returns.\<close>

fun run_undo :: "helper_oracle \<Rightarrow> undo \<Rightarrow> event list \<Rightarrow> error option \<times> event list" where
  "run_undo ok (UndoAlias ip) tr =
     (case runHelper ok [''remove-alias'', ip] tr of
        (False, tr') \<Rightarrow> (Some (HelperFailed [''remove-alias'', ip]), tr')
      | (True, tr') \<Rightarrow> (None, tr'))"
| "run_undo ok (UndoHosts ip hostnames) tr =
     (None, fold (\<lambda>hostname t. snd (runHelper ok [''remove-host'', ip, hostname] t)) hostnames tr)"
| "run_undo ok (UndoPFRedirect ip fromPort toPort) tr =
     (case runHelper ok [''remove-pf-redirect'', ip, itoa fromPort, itoa toPort] tr of
        (False, tr') \<Rightarrow>
          (Some (HelperFailed [''remove-pf-redirect'', ip, itoa fromPort, itoa toPort]), tr')
      | (True, tr') \<Rightarrow> (None, tr'))"
| "run_undo ok UndoNothing tr = (None, tr)"

text \<open>\<open>NetworkSetup.Cleanup\<close>: the three bulk removals; a failure is logged and nothing else.\<close>

definition Cleanup :: "helper_oracle \<Rightarrow> event list \<Rightarrow> event list" where
  "Cleanup ok tr =
     snd (runHelper ok [''remove-aliases'']
       (snd (runHelper ok [''remove-hosts'']
         (snd (runHelper ok [''remove-pf-redirects''] tr)))))"

text \<open>
  \<open>SetupNetwork\<close>: on the first failure the undo closures collected so far are returned
  together with the error.
\<close>

fun SetupNetwork_loop ::
  "helper_oracle \<Rightarrow> HostConfig list \<Rightarrow> undo list \<Rightarrow> event list
     \<Rightarrow> undo list \<times> error option \<times> event list" where
  "SetupNetwork_loop ok [] cleanup tr = (cleanup, None, tr)"
| "SetupNetwork_loop ok (config # rest) cleanup tr =
     (case SetupLoopbackAlias ok (LocalIP config) tr of
        (Inl e, tr1) \<Rightarrow> (cleanup, Some e, tr1)
      | (Inr cleanupFn, tr1) \<Rightarrow>
          (case AddHostsEntries ok (LocalIP config) (Hostnames config) tr1 of
             (Inl e, tr2) \<Rightarrow> (cleanup @ [cleanupFn], Some e, tr2)
           | (Inr cleanupFn', tr2) \<Rightarrow>
               SetupNetwork_loop ok rest (cleanup @ [cleanupFn, cleanupFn']) tr2))"

definition SetupNetwork ::
  "helper_oracle \<Rightarrow> HostConfig list \<Rightarrow> event list \<Rightarrow> undo list \<times> error option \<times> event list" where
  "SetupNetwork ok configs tr = SetupNetwork_loop ok configs [] tr"

section \<open>Loading the configuration\<close>

text \<open>
  \<open>LoadConfig\<close> of the current config.go. Reading the file, \<open>yaml.Unmarshal\<close> and
  \<open>net.ParseIP\<close> are library calls and are taken from the environment; the defaults are
  the code's. The second component of the result is what is logged.
\<close>

record config_env =
  ReadFile :: "string \<Rightarrow> string + string"
  Unmarshal :: "string \<Rightarrow> string + HostConfig list"
  ParseIP_ok :: "string \<Rightarrow> bool"

definition isIPAddress :: "config_env \<Rightarrow> string \<Rightarrow> bool" where
  "isIPAddress env s = ParseIP_ok env s"

definition set_defaults :: "config_env \<Rightarrow> HostConfig \<Rightarrow> HostConfig \<times> string list" where
  "set_defaults env h =
     (let h1 = (if JumpPort h = 0 then h\<lparr>JumpPort := SSHDefaultPort\<rparr> else h);
          h2 = (if KeyPath h1 = [] then h1\<lparr>KeyPath := DefaultKeyPath\<rparr> else h1)
      in if length (Hostnames h2) = 0
         then (if isIPAddress env (RemoteHost h2)
               then (h2, [''Warning: Host with remote_host='' @ RemoteHost h2
                          @ '' has no hostnames. Access via local IP '' @ LocalIP h2 @ '' only.''])
               else (h2\<lparr>Hostnames := [RemoteHost h2]\<rparr>, []))
         else (h2, []))"

definition LoadConfig :: "config_env \<Rightarrow> string \<Rightarrow> string + (HostConfig list \<times> string list)" where
  "LoadConfig env path =
     (case ReadFile env path of
        Inl err \<Rightarrow> Inl (''failed to read config file: '' @ err)
      | Inr data \<Rightarrow>
          (case Unmarshal env data of
             Inl err \<Rightarrow> Inl (''failed to parse config: '' @ err)
           | Inr hosts \<Rightarrow>
               Inr (map (\<lambda>h. fst (set_defaults env h)) hosts,
                    concat (map (\<lambda>h. snd (set_defaults env h)) hosts))))"

section \<open>Forwarding engine: forwarder.go\<close>

datatype HealthStatus = StatusHealthy | StatusDegraded | StatusError

record StatusUpdate =
  Health :: HealthStatus
  Message :: string

text \<open>
  A buffered channel: the values sent and not yet received, the capacity, and whether
  the channel has been closed. The Go runtime panics on a send to a closed channel,
  also when the send is a case of a \<open>select\<close> with a \<open>default\<close>, and on closing
  a closed channel.
\<close>

record chan =
  chBuf :: "StatusUpdate list"
  chCap :: nat
  chClosed :: bool

datatype fault = SendOnClosedChannel | CloseOfClosedChannel

text \<open>\<open>select { case ch <- u: default: }\<close>.\<close>

definition try_send :: "StatusUpdate \<Rightarrow> chan \<Rightarrow> fault + chan" where
  "try_send u ch =
     (if chClosed ch then Inl SendOnClosedChannel
      else if length (chBuf ch) < chCap ch then Inr (ch\<lparr>chBuf := chBuf ch @ [u]\<rparr>)
      else Inr ch)"

definition close_chan :: "chan \<Rightarrow> fault + chan" where
  "close_chan ch = (if chClosed ch then Inl CloseOfClosedChannel else Inr (ch\<lparr>chClosed := True\<rparr>))"

text \<open>The outcome of a call: it does not return, it panics, or it returns.\<close>

datatype 'a exec = Hang | Panic fault | Return 'a

record DynamicForwarder =
  configPath :: string
  configs :: "HostConfig list"
  sshPool :: SSHClientPool
  cleanup :: "undo list"
  running :: bool
  statusChan :: chan
  errorCount :: int
  lastErrors :: "string list"
  maxErrors :: int
  trace :: "event list"

definition NewDynamicForwarder :: "string \<Rightarrow> HostConfig list \<Rightarrow> DynamicForwarder" where
  "NewDynamicForwarder path hosts =
     \<lparr> configPath = path, configs = hosts, sshPool = NewSSHClientPool, cleanup = [],
       running = False, statusChan = \<lparr> chBuf = [], chCap = 10, chClosed = False \<rparr>,
       errorCount = 0, lastErrors = [], maxErrors = 5, trace = [] \<rparr>"

text \<open>The wall clock read by \<open>time.Now()\<close>, printed with the layout \<open>15:04:05\<close>.\<close>

record clock =
  hour :: nat
  minute :: nat
  second :: nat

definition pad2 :: "nat \<Rightarrow> string" where
  "pad2 n = [digit_char (int (n div 10 mod 10)), digit_char (int (n mod 10))]"

definition format_clock :: "clock \<Rightarrow> string" where
  "format_clock t = pad2 (hour t) @ '':'' @ pad2 (minute t) @ '':'' @ pad2 (second t)"

text \<open>
  \<open>recordError\<close>; the error is given by its message, as \<open>%v\<close> prints it. The counter
  starts at 0 and grows by one in a call, so it stays far from the end of the 64-bit
  range and is an unbounded integer here.
\<close>

definition recordError :: "clock \<Rightarrow> string \<Rightarrow> DynamicForwarder \<Rightarrow> fault + DynamicForwarder" where
  "recordError now err df =
     (let errMsg = format_clock now @ '': '' @ err;
          appended = lastErrors df @ [errMsg];
          kept = (if int (length appended) > maxErrors df then tl appended else appended);
          count = errorCount df + 1
      in case try_send \<lparr> Health = StatusDegraded,
                         Message = itoa count @ '' connection errors - '' @ err \<rparr> (statusChan df) of
           Inl f \<Rightarrow> Inl f
         | Inr ch \<Rightarrow> Inr (df\<lparr>lastErrors := kept, errorCount := count, statusChan := ch\<rparr>))"

definition clearErrors :: "DynamicForwarder \<Rightarrow> DynamicForwarder" where
  "clearErrors df = df\<lparr>errorCount := 0, lastErrors := []\<rparr>"

record engine_env =
  config_of :: config_env
  helper_ok :: helper_oracle

definition reloadConfig :: "engine_env \<Rightarrow> DynamicForwarder \<Rightarrow> error option \<times> DynamicForwarder" where
  "reloadConfig env df =
     (case LoadConfig (config_of env) (configPath df) of
        Inl err \<Rightarrow> (Some (ReloadFailed (''failed to reload config: '' @ err)), df)
      | Inr (hosts, logged) \<Rightarrow> (None, df\<lparr>configs := hosts\<rparr>))"

text \<open>
  \<open>setupNetwork\<close>: when \<open>SetupNetwork\<close> fails, the undo closures it returns are dropped
  and the error is returned.
\<close>

definition setupNetwork :: "engine_env \<Rightarrow> DynamicForwarder \<Rightarrow> error option \<times> DynamicForwarder" where
  "setupNetwork env df =
     (case SetupNetwork (helper_ok env) (configs df) (trace df) of
        (undos, Some e, tr) \<Rightarrow> (Some e, df\<lparr>trace := tr\<rparr>)
      | (undos, None, tr) \<Rightarrow> (None, df\<lparr>trace := tr, cleanup := cleanup df @ undos\<rparr>))"

text \<open>The inner loop of \<open>Start\<close> over the ports of one host.\<close>

fun start_ports ::
  "engine_env \<Rightarrow> HostConfig \<Rightarrow> int list \<Rightarrow> DynamicForwarder \<Rightarrow> error option \<times> DynamicForwarder" where
  "start_ports env cfg [] df = (None, df)"
| "start_ports env cfg (port # rest) df =
     (let fwdCfg = NewForwardConfig cfg port
      in if NeedsPFRedirect fwdCfg
         then (case SetupPFRedirect (helper_ok env) (fLocalIP fwdCfg) (fPort fwdCfg)
                      (fListenPort fwdCfg) (trace df) of
                 (Inl e, tr) \<Rightarrow> (Some e, df\<lparr>trace := tr\<rparr>)
               | (Inr u, tr) \<Rightarrow>
                   start_ports env cfg rest
                     (df\<lparr>trace := tr @ [Spawn fwdCfg], cleanup := cleanup df @ [u]\<rparr>))
         else start_ports env cfg rest (df\<lparr>trace := trace df @ [Spawn fwdCfg]\<rparr>))"

text \<open>The outer loop of \<open>Start\<close> over the hosts.\<close>

fun start_hosts ::
  "engine_env \<Rightarrow> HostConfig list \<Rightarrow> DynamicForwarder \<Rightarrow> (error option \<times> DynamicForwarder) exec" where
  "start_hosts env [] df = Return (None, df)"
| "start_hosts env (cfg # rest) df =
     (case ExpandPorts cfg of
        None \<Rightarrow> Hang
      | Some (Inl e) \<Rightarrow> Return (Some (ExpandFailed e), df)
      | Some (Inr ports) \<Rightarrow>
          if length ports = 0 then start_hosts env rest df
          else (case start_ports env cfg ports df of
                  (Some e, df') \<Rightarrow> Return (Some e, df')
                | (None, df') \<Rightarrow> start_hosts env rest df'))"

definition Start :: "engine_env \<Rightarrow> DynamicForwarder \<Rightarrow> (error option \<times> DynamicForwarder) exec" where
  "Start env df =
     (if running df then Return (Some AlreadyRunning, df)
      else case reloadConfig env df of
        (Some e, df1) \<Rightarrow> Return (Some e, df1)
      | (None, df1) \<Rightarrow>
          (case setupNetwork env (df1\<lparr>trace := Cleanup (helper_ok env) (trace df1)\<rparr>) of
             (Some e, df2) \<Rightarrow> Return (Some e, df2)
           | (None, df2) \<Rightarrow>
               (case start_hosts env (configs df2) df2 of
                  Hang \<Rightarrow> Hang
                | Panic f \<Rightarrow> Panic f
                | Return (Some e, df3) \<Rightarrow> Return (Some e, df3)
                | Return (None, df3) \<Rightarrow>
                    (let df4 = clearErrors (df3\<lparr>running := True, trace := trace df3 @ [SetRunning True]\<rparr>)
                     in case try_send \<lparr> Health = StatusHealthy,
                                        Message = ''Port forwarding started'' \<rparr> (statusChan df4) of
                          Inl f \<Rightarrow> Panic f
                        | Inr ch \<Rightarrow> Return (None, df4\<lparr>statusChan := ch\<rparr>)))))"

text \<open>
  \<open>Close\<close>: the status channel is closed, then the pool, then the undo closures are
  called from the last to the first; an error of a closure is logged.
\<close>

definition run_undos :: "helper_oracle \<Rightarrow> undo list \<Rightarrow> event list \<Rightarrow> event list" where
  "run_undos ok us tr = fold (\<lambda>u t. snd (run_undo ok u (t @ [CallUndo u]))) us tr"

definition Close :: "engine_env \<Rightarrow> DynamicForwarder \<Rightarrow> (error option \<times> DynamicForwarder) exec" where
  "Close env df =
     (case close_chan (statusChan df) of
        Inl f \<Rightarrow> Panic f
      | Inr ch \<Rightarrow>
          Return (None,
            df\<lparr>statusChan := ch,
               sshPool := pool_Close (sshPool df),
               trace := run_undos (helper_ok env) (rev (cleanup df))
                          (trace df @ [CloseStatusChan, ClosePool])\<rparr>))"

definition Stop :: "engine_env \<Rightarrow> DynamicForwarder \<Rightarrow> (error option \<times> DynamicForwarder) exec" where
  "Stop env df =
     (if \<not> running df then Return (None, df)
      else Close env (df\<lparr>running := False, trace := trace df @ [SetRunning False]\<rparr>))"

text \<open>
  \<open>forwardConnection\<close>, the handler of one accepted connection. Its environment gives
  the outcome of the two \<open>GetClient\<close> calls, of the two sub-stream dials (\<open>None\<close>: the dial
  succeeded) and the clock. The copy of the bytes is the event \<open>Splice\<close>.
\<close>

record conn_env =
  first_get :: pool_env
  first_dial :: "string option"
  second_get :: pool_env
  second_dial :: "string option"
  now :: clock

definition record_exec :: "clock \<Rightarrow> string \<Rightarrow> DynamicForwarder \<Rightarrow> DynamicForwarder exec" where
  "record_exec t err df = (case recordError t err df of Inl f \<Rightarrow> Panic f | Inr df' \<Rightarrow> Return df')"

definition forwardConnection :: "conn_env \<Rightarrow> ForwardConfig \<Rightarrow> DynamicForwarder \<Rightarrow> DynamicForwarder exec" where
  "forwardConnection env cfg df =
     (let remoteAddr = fRemoteHost cfg @ '':'' @ itoa (fPort cfg)
      in case GetClient (first_get env) (fJumpHost cfg) (fJumpPort cfg) (fKeyPath cfg)
                (fIdentityAgent cfg) (sshPool df) of
           None \<Rightarrow> Hang
         | Some (Inl err, pool1) \<Rightarrow>
             record_exec (now env) (''SSH client error for '' @ fJumpHost cfg @ '': '' @ err)
               (df\<lparr>sshPool := pool1\<rparr>)
         | Some (Inr sshClient, pool1) \<Rightarrow>
             (case first_dial env of
                None \<Rightarrow> Return (df\<lparr>sshPool := pool1, trace := trace df @ [Splice cfg]\<rparr>)
              | Some derr \<Rightarrow>
                  (case GetClient (second_get env) (fJumpHost cfg) (fJumpPort cfg) (fKeyPath cfg)
                          (fIdentityAgent cfg) (RemoveClient (fJumpHost cfg) (fJumpPort cfg) pool1) of
                     None \<Rightarrow> Hang
                   | Some (Inl err, pool2) \<Rightarrow>
                       record_exec (now env) (''reconnect failed for '' @ fJumpHost cfg @ '': '' @ err)
                         (df\<lparr>sshPool := pool2\<rparr>)
                   | Some (Inr sshClient', pool2) \<Rightarrow>
                       (case second_dial env of
                          None \<Rightarrow> Return (df\<lparr>sshPool := pool2, trace := trace df @ [Splice cfg]\<rparr>)
                        | Some derr' \<Rightarrow>
                            record_exec (now env) (''dial failed for '' @ remoteAddr @ '': '' @ derr')
                              (df\<lparr>sshPool := pool2\<rparr>)))))"

section \<open>Runs of the engine\<close>

text \<open>What a call returned, if it returned.\<close>

definition returned :: "'a exec \<Rightarrow> 'a option" where
  "returned r = (case r of Return x \<Rightarrow> Some x | Hang \<Rightarrow> None | Panic f \<Rightarrow> None)"

definition result_error :: "(error option \<times> DynamicForwarder) exec \<Rightarrow> error option option" where
  "result_error r = map_option fst (returned r)"

definition result_state :: "(error option \<times> DynamicForwarder) exec \<Rightarrow> DynamicForwarder option" where
  "result_state r = map_option snd (returned r)"

text \<open>Sequencing of calls: the second call runs on what the first returned.\<close>

definition and_then :: "'a exec \<Rightarrow> ('a \<Rightarrow> 'b exec) \<Rightarrow> 'b exec" where
  "and_then r f = (case r of Return x \<Rightarrow> f x | Hang \<Rightarrow> Hang | Panic e \<Rightarrow> Panic e)"

definition is_helper :: "event \<Rightarrow> bool" where
  "is_helper e = (case e of Helper args \<Rightarrow> True | _ \<Rightarrow> False)"

text \<open>The effects of the engine itself in a trace: everything but the helper invocations.\<close>

definition own_events :: "event list \<Rightarrow> event list" where
  "own_events tr = filter (\<lambda>e. \<not> is_helper e) tr"

text \<open>A sequence of operations on the error window, and the messages it leaves to keep.\<close>

datatype ew_op = OpRecord clock string | OpClear

fun apply_ops :: "ew_op list \<Rightarrow> DynamicForwarder \<Rightarrow> fault + DynamicForwarder" where
  "apply_ops [] df = Inr df"
| "apply_ops (OpRecord t e # ops) df =
     (case recordError t e df of Inl f \<Rightarrow> Inl f | Inr df' \<Rightarrow> apply_ops ops df')"
| "apply_ops (OpClear # ops) df = apply_ops ops (clearErrors df)"

fun recorded :: "ew_op list \<Rightarrow> string list \<Rightarrow> string list" where
  "recorded [] acc = acc"
| "recorded (OpRecord t e # ops) acc = recorded ops (acc @ [format_clock t @ '': '' @ e])"
| "recorded (OpClear # ops) acc = recorded ops []"

definition last5 :: "'a list \<Rightarrow> 'a list" where
  "last5 xs = drop (length xs - 5) xs"

text \<open>Concrete environments and engines for the runs below.\<close>

definition example_config_env :: config_env where
  "example_config_env =
     \<lparr> ReadFile = (\<lambda>path. Inr ''hosts: ...''),
       Unmarshal = (\<lambda>data. Inr [example_host]),
       ParseIP_ok = (\<lambda>s. s \<in> set [''10.0.0.5'', ''127.0.0.2'']) \<rparr>"

definition example_env :: engine_env where
  "example_env = \<lparr> config_of = example_config_env, helper_ok = (\<lambda>tr args. True) \<rparr>"

definition reversed_host :: HostConfig where
  "reversed_host = example_host\<lparr>Ports := [PStr ''100-50'']\<rparr>"

definition reversed_env :: engine_env where
  "reversed_env =
     \<lparr> config_of = example_config_env\<lparr>Unmarshal := (\<lambda>data. Inr [reversed_host])\<rparr>,
       helper_ok = (\<lambda>tr args. True) \<rparr>"

text \<open>An environment in which the helper refuses \<open>add-host\<close>.\<close>

definition refusing_env :: engine_env where
  "refusing_env =
     \<lparr> config_of = example_config_env,
       helper_ok = (\<lambda>tr args. \<not> prefix [''add-host''] args) \<rparr>"

definition fresh_engine :: DynamicForwarder where
  "fresh_engine = NewDynamicForwarder ''config.yaml'' []"

text \<open>A call of \<open>GetClient\<close> whose dial of the jump host is refused.\<close>

definition refused_pool_env :: pool_env where
  "refused_pool_env =
     \<lparr> loadSSHAuthMethods = (\<lambda>attempt keyPath agent. Inr [PublicKeys keyPath, KeyboardInteractive]),
       currentUser = Inr ''alice'',
       sshDial = (\<lambda>attempt addr. Some ''dial tcp: connect: connection refused'') \<rparr>"

definition refused_conn_env :: conn_env where
  "refused_conn_env =
     \<lparr> first_get = refused_pool_env, first_dial = None,
       second_get = refused_pool_env, second_dial = None,
       now = \<lparr> hour = 9, minute = 5, second = 30 \<rparr> \<rparr>"

text \<open>The engine after a successful \<open>Start\<close>, and after the \<open>Stop\<close> that follows.\<close>

definition started_engine :: DynamicForwarder where
  "started_engine =
     (case Start example_env fresh_engine of Return (e, df) \<Rightarrow> df | Hang \<Rightarrow> fresh_engine
      | Panic f \<Rightarrow> fresh_engine)"

definition stopped_engine :: DynamicForwarder where
  "stopped_engine =
     (case Stop example_env started_engine of Return (e, df) \<Rightarrow> df | Hang \<Rightarrow> started_engine
      | Panic f \<Rightarrow> started_engine)"

text \<open>The engine's own effects during a call of \<open>Stop\<close>, in the order they happen.\<close>

definition stop_effects :: "engine_env \<Rightarrow> DynamicForwarder \<Rightarrow> event list option" where
  "stop_effects env df =
     map_option (\<lambda>df'. own_events (drop (length (trace df)) (trace df')))
       (result_state (Stop env df))"

text \<open>The helper invocations during a call of \<open>Start\<close>.\<close>

definition start_trace :: "engine_env \<Rightarrow> DynamicForwarder \<Rightarrow> event list option" where
  "start_trace env df =
     map_option (\<lambda>df'. drop (length (trace df)) (trace df')) (result_state (Start env df))"

text \<open>Two hosts without a hostnames list, one named by a domain and one by an address.\<close>

definition bare_hosts :: "HostConfig list" where
  "bare_hosts =
     [\<lparr> LocalIP = ''127.0.0.2'', Hostnames = [], RemoteHost = ''app.internal.example.com'',
        JumpHost = ''jump.example.com'', JumpPort = 0, KeyPath = [], IdentityAgent = [],
        Ports = [PInt 80] \<rparr>,
      \<lparr> LocalIP = ''127.0.0.3'', Hostnames = [], RemoteHost = ''10.0.0.5'',
        JumpHost = ''jump.example.com'', JumpPort = 2222, KeyPath = ''~/.ssh/id_ed25519'',
        IdentityAgent = [], Ports = [PInt 22] \<rparr>]"

definition bare_env :: config_env where
  "bare_env = example_config_env\<lparr>Unmarshal := (\<lambda>data. Inr bare_hosts)\<rparr>"

definition no_hostnames_warning :: "HostConfig \<Rightarrow> string" where
  "no_hostnames_warning h =
     ''Warning: Host with remote_host='' @ RemoteHost h
     @ '' has no hostnames. Access via local IP '' @ LocalIP h @ '' only.''"

text \<open>Six errors in a row, one more than the window keeps.\<close>

definition six_errors :: "ew_op list" where
  "six_errors =
     map (\<lambda>e. OpRecord \<lparr> hour = 9, minute = 5, second = 30 \<rparr> e)
       [''e1'', ''e2'', ''e3'', ''e4'', ''e5'', ''e6'']"

section \<open>Privileged helper: helper/main.go\<close>

text \<open>
  The helper works on the resolver file, on the registry file of the aliases it created
  and on the loopback interface. A file is its content; \<open>None\<close> is a resolver file that
  cannot be read and a registry file that does not exist. Writes succeed. \<open>net.ParseIP\<close> with \<open>IsLoopback\<close> is a parameter: it says whether a
  text is an IP literal and whether the address is a loopback address.
\<close>

definition hostsMarker :: string where
  "hostsMarker = ''# portsmith-dynamic-forward''"

datatype parsed_ip = Loopback | NotLoopback

datatype helper_error =
    InvalidIP string
  | OnlyLoopback string
  | HostnameWhitespace string
  | HostnameTooLong string
  | HostnameEmpty
  | ReadFailed

definition validateIP :: "(string \<Rightarrow> parsed_ip option) \<Rightarrow> string \<Rightarrow> helper_error option" where
  "validateIP ParseIP ip =
     (case ParseIP ip of
        None \<Rightarrow> Some (InvalidIP ip)
      | Some parsed \<Rightarrow> if parsed \<noteq> Loopback then Some (OnlyLoopback ip) else None)"

definition ContainsAny :: "string \<Rightarrow> string \<Rightarrow> bool" where
  "ContainsAny s chars = list_ex (\<lambda>c. c \<in> set chars) s"

definition validateHostname :: "string \<Rightarrow> helper_error option" where
  "validateHostname hostname =
     (if ContainsAny hostname [CHR '' '', CHR 0x09, LF, CR] then Some (HostnameWhitespace hostname)
      else if length hostname > 253 then Some (HostnameTooLong hostname)
      else if length hostname = 0 then Some HostnameEmpty
      else None)"

text \<open>The test both \<open>addHost\<close> and \<open>removeHost\<close> apply to a line of the resolver file.\<close>

definition entry_matches :: "string \<Rightarrow> string \<Rightarrow> string \<Rightarrow> bool" where
  "entry_matches ip hostname line =
     (Contains line hostsMarker \<and> Contains line hostname \<and> Contains line ip)"

definition addHost ::
  "(string \<Rightarrow> parsed_ip option) \<Rightarrow> string \<Rightarrow> string \<Rightarrow> string option
     \<Rightarrow> helper_error option \<times> string option" where
  "addHost ParseIP ip hostname file =
     (case validateIP ParseIP ip of
        Some e \<Rightarrow> (Some e, file)
      | None \<Rightarrow>
          (case validateHostname hostname of
             Some e \<Rightarrow> (Some e, file)
           | None \<Rightarrow>
               (case file of
                  None \<Rightarrow> (Some ReadFailed, file)
                | Some content \<Rightarrow>
                    let lines = Split_nl content;
                        searchEntry = ip @ '' '' @ hostname
                    in if list_ex (entry_matches ip hostname) lines then (None, file)
                       else let newContent = (if \<not> HasSuffix content [LF] then content @ [LF] else content)
                            in (None, Some (newContent @ searchEntry @ '' '' @ hostsMarker @ [LF])))))"

definition removeHost ::
  "(string \<Rightarrow> parsed_ip option) \<Rightarrow> string \<Rightarrow> string \<Rightarrow> string option
     \<Rightarrow> helper_error option \<times> string option" where
  "removeHost ParseIP ip hostname file =
     (case validateIP ParseIP ip of
        Some e \<Rightarrow> (Some e, file)
      | None \<Rightarrow>
          (case validateHostname hostname of
             Some e \<Rightarrow> (Some e, file)
           | None \<Rightarrow>
               (case file of
                  None \<Rightarrow> (Some ReadFailed, file)
                | Some content \<Rightarrow>
                    let lines = Split_nl content;
                        newLines = filter (\<lambda>line. \<not> entry_matches ip hostname line) lines
                    in (None, Some (Join_nl newLines)))))"

text \<open>The line \<open>addHost\<close> appends, without its newline, and a content ending in a newline.\<close>

definition hosts_entry :: "string \<Rightarrow> string \<Rightarrow> string" where
  "hosts_entry ip hostname = ip @ '' '' @ hostname @ '' '' @ hostsMarker"

definition ensure_newline :: "string \<Rightarrow> string" where
  "ensure_newline content = (if HasSuffix content [LF] then content else content @ [LF])"

definition example_ParseIP :: "string \<Rightarrow> parsed_ip option" where
  "example_ParseIP s =
     (if s \<in> set [''127.0.0.1'', ''127.0.0.2'', ''127.0.0.3''] then Some Loopback
      else if s \<in> set [''192.168.1.1'', ''10.0.0.5''] then Some NotLoopback
      else None)"


text \<open>
  \<open>strings.TrimSpace\<close>: leading and trailing white-space runes (\<open>unicode.IsSpace\<close>, the
  newline included) are cut, in their UTF-8 encodings.
\<close>

definition unicode_space_runes :: "string list" where
  "unicode_space_runes = [LF] # space_runes"

definition leading_space_len :: "string \<Rightarrow> nat" where
  "leading_space_len s =
     (case filter (\<lambda>r. prefix r s) unicode_space_runes of [] \<Rightarrow> 0 | r # _ \<Rightarrow> length r)"

definition trailing_space_len :: "string \<Rightarrow> nat" where
  "trailing_space_len s =
     (case filter (\<lambda>r. suffix r s) unicode_space_runes of [] \<Rightarrow> 0 | r # _ \<Rightarrow> length r)"

lemma leading_space_len_Nil: "leading_space_len [] = 0"
  by (simp add: leading_space_len_def unicode_space_runes_def space_runes_def)

lemma trailing_space_len_Nil: "trailing_space_len [] = 0"
  by (simp add: trailing_space_len_def unicode_space_runes_def space_runes_def)

function TrimLeft_space :: "string \<Rightarrow> string" where
  "TrimLeft_space s =
     (if leading_space_len s = 0 then s else TrimLeft_space (drop (leading_space_len s) s))"
  by pat_completeness auto
termination
proof (relation "measure length")
  fix s :: string
  assume "leading_space_len s \<noteq> 0"
  then have "s \<noteq> []" using leading_space_len_Nil by auto
  then show "(drop (leading_space_len s) s, s) \<in> measure length"
    using \<open>leading_space_len s \<noteq> 0\<close> by simp
qed simp

function TrimRight_space :: "string \<Rightarrow> string" where
  "TrimRight_space s =
     (if trailing_space_len s = 0 then s
      else TrimRight_space (take (length s - trailing_space_len s) s))"
  by pat_completeness auto
termination
proof (relation "measure length")
  fix s :: string
  assume "trailing_space_len s \<noteq> 0"
  then have "s \<noteq> []" using trailing_space_len_Nil by auto
  then show "(take (length s - trailing_space_len s) s, s) \<in> measure length"
    using \<open>trailing_space_len s \<noteq> 0\<close> by simp
qed simp

definition TrimSpace :: "string \<Rightarrow> string" where
  "TrimSpace s = TrimRight_space (TrimLeft_space s)"

text \<open>\<open>loadAliases\<close>: the registry; a registry file that does not exist is an empty registry.\<close>

definition loadAliases :: "string option \<Rightarrow> string list" where
  "loadAliases file =
     (case file of
        None \<Rightarrow> []
      | Some content \<Rightarrow>
          filter (\<lambda>line. line \<noteq> []) (map TrimSpace (Split_nl (TrimSpace content))))"

text \<open>
  \<open>ifconfig lo0 -alias ip\<close> on the list of the addresses of the interface: it fails
  when the address is not there, and removes it otherwise.
\<close>

definition ifconfig_remove_alias :: "string \<Rightarrow> string list \<Rightarrow> bool \<times> string list" where
  "ifconfig_remove_alias ip lo0 = (ip \<in> set lo0, removeAll ip lo0)"

fun remove_each :: "string list \<Rightarrow> string list \<Rightarrow> nat \<Rightarrow> string list \<times> nat" where
  "remove_each [] lo0 removed = (lo0, removed)"
| "remove_each (ip # rest) lo0 removed =
     (case ifconfig_remove_alias ip lo0 of
        (False, lo0') \<Rightarrow> remove_each rest lo0' removed
      | (True, lo0') \<Rightarrow> remove_each rest lo0' (Suc removed))"

definition removeAliasesDarwin ::
  "string list \<Rightarrow> string option \<Rightarrow> helper_error option \<times> string list \<times> string option" where
  "removeAliasesDarwin lo0 file =
     (let aliases = loadAliases file
      in if length aliases = 0 then (None, lo0, file)
         else (None, fst (remove_each aliases lo0 0), Some []))"

definition example_registry :: "string option" where
  "example_registry = Some (''127.0.0.2'' @ [LF] @ '' 127.0.0.3 '' @ [LF])"

section \<open>Calls of \<open>GetClient\<close> in sequence and overlapping\<close>

text \<open>
  Connection handlers run concurrently and call \<open>GetClient\<close> on the one pool. A call
  holds \<open>pool.mu\<close> except while it loads the auth methods and while it sleeps between
  two dial attempts. The steps below cut a call at the first of these places only, so a
  call is at one of three points: not started, waiting for the auth methods with the
  mutex released, finished. A step runs a call from one point to the next; a schedule
  says which call takes the next step.
\<close>

datatype call_pc = NotStarted | LoadingAuth | Finished "string + nat"

record get_call =
  gEnv :: pool_env
  gKeyPath :: string
  gIdentityAgent :: string
  gPc :: call_pc

definition call_step :: "string \<Rightarrow> int \<Rightarrow> get_call \<Rightarrow> SSHClientPool \<Rightarrow> get_call \<times> SSHClientPool" where
  "call_step jumpHost jumpPort c pool =
     (case gPc c of
        NotStarted \<Rightarrow>
          (case gc_lookup jumpHost jumpPort (gKeyPath c) (gIdentityAgent c) pool of
             Inl client \<Rightarrow> (c\<lparr>gPc := Finished (Inr client)\<rparr>, pool)
           | Inr True \<Rightarrow>
               (case gc_connect (gEnv c) jumpHost jumpPort pool of
                  (r, pool') \<Rightarrow> (c\<lparr>gPc := Finished r\<rparr>, pool'))
           | Inr False \<Rightarrow> (c\<lparr>gPc := LoadingAuth\<rparr>, pool))
      | LoadingAuth \<Rightarrow>
          (case gc_load (gEnv c) (gKeyPath c) (gIdentityAgent c) pool of
             None \<Rightarrow> (c, pool)
           | Some (Some err, pool') \<Rightarrow> (c\<lparr>gPc := Finished (Inl err)\<rparr>, pool')
           | Some (None, pool') \<Rightarrow>
               (case gc_connect (gEnv c) jumpHost jumpPort pool' of
                  (r, pool'') \<Rightarrow> (c\<lparr>gPc := Finished r\<rparr>, pool'')))
      | Finished r \<Rightarrow> (c, pool))"

definition sched_step ::
  "string \<Rightarrow> int \<Rightarrow> nat \<Rightarrow> SSHClientPool \<times> get_call list \<Rightarrow> SSHClientPool \<times> get_call list" where
  "sched_step jumpHost jumpPort i st =
     (case st of (pool, calls) \<Rightarrow>
        if i < length calls
        then (case call_step jumpHost jumpPort (calls ! i) pool of
                (c', pool') \<Rightarrow> (pool', calls[i := c']))
        else (pool, calls))"

definition run_schedule ::
  "string \<Rightarrow> int \<Rightarrow> nat list \<Rightarrow> SSHClientPool \<times> get_call list \<Rightarrow> SSHClientPool \<times> get_call list" where
  "run_schedule jumpHost jumpPort sched st = fold (sched_step jumpHost jumpPort) sched st"







section \<open>What \<open>ExpandPorts\<close> is compared with\<close>




section \<open>Properties\<close>

subsection \<open>Forward derivation\<close>

text \<open>
  C6. For every port value the derived endpoint has listen port \<open>10000 + port\<close> when
  \<open>port < 1024\<close> and \<open>port\<close> otherwise, and it needs a redirect exactly when
  \<open>port < 1024\<close>.
\<close>

theorem C6_listen_port_rule:
  "fListenPort (NewForwardConfig host port) = (if port < 1024 then 10000 + port else port)
   \<and> fPort (NewForwardConfig host port) = port
   \<and> (NeedsPFRedirect (NewForwardConfig host port) \<longleftrightarrow> port < 1024)"
  by (simp add: NewForwardConfig_def NeedsPFRedirect_def)

theorem C6_listen_port_rule_witness:
  "fListenPort (NewForwardConfig example_host 80) = 10080
   \<and> fListenPort (NewForwardConfig example_host 5432) = 5432
   \<and> NeedsPFRedirect (NewForwardConfig example_host 80)
   \<and> \<not> NeedsPFRedirect (NewForwardConfig example_host 5432)"
  using C6_listen_port_rule [of example_host 80] C6_listen_port_rule [of example_host 5432]
  by simp

subsection \<open>The error window\<close>

lemma last5_snoc:
  "last5 (xs @ [m]) = (if 5 < int (length (last5 xs @ [m])) then tl (last5 xs @ [m]) else last5 xs @ [m])"
proof (cases "length xs < 5")
  case True
  then show ?thesis by (simp add: last5_def)
next
  case False
  then have k: "Suc (length xs) - 5 = Suc (length xs - 5)" and ne: "drop (length xs - 5) xs \<noteq> []"
    by simp_all
  have "tl (drop (length xs - 5) xs @ [m]) = drop (Suc (length xs - 5)) xs @ [m]"
    using ne by (simp add: drop_Suc tl_drop)
  with False k show ?thesis by (simp add: last5_def)
qed

lemma length_last5: "length (last5 xs) \<le> 5"
  by (simp add: last5_def)

lemma recordError_open:
  assumes "\<not> chClosed (statusChan df)"
  shows "recordError t e df =
     Inr (df\<lparr>lastErrors := (if maxErrors df < int (length (lastErrors df @ [format_clock t @ '': '' @ e]))
                              then tl (lastErrors df @ [format_clock t @ '': '' @ e])
                              else lastErrors df @ [format_clock t @ '': '' @ e]),
             errorCount := errorCount df + 1,
             statusChan := (if length (chBuf (statusChan df)) < chCap (statusChan df)
                then (statusChan df)\<lparr>chBuf := chBuf (statusChan df) @
                   [\<lparr>Health = StatusDegraded, Message = itoa (errorCount df + 1) @ '' connection errors - '' @ e\<rparr>]\<rparr>
                else statusChan df)\<rparr>)"
  using assms by (simp add: recordError_def try_send_def Let_def)

lemma apply_ops_inv:
  assumes "\<not> chClosed (statusChan df)" "maxErrors df = 5" "lastErrors df = last5 acc"
    "errorCount df = int (length acc)"
  shows "\<exists>df'. apply_ops ops df = Inr df' \<and> \<not> chClosed (statusChan df') \<and> maxErrors df' = 5
          \<and> lastErrors df' = last5 (recorded ops acc)
          \<and> errorCount df' = int (length (recorded ops acc))"
  using assms
proof (induction ops arbitrary: df acc)
  case Nil
  then show ?case by simp
next
  case (Cons op ops)
  show ?case
  proof (cases op)
    case (OpRecord t e)
    let ?m = "format_clock t @ '': '' @ e"
    define df1 where "df1 = df\<lparr>lastErrors := (if maxErrors df < int (length (lastErrors df @ [?m]))
                              then tl (lastErrors df @ [?m])
                              else lastErrors df @ [?m]),
             errorCount := errorCount df + 1,
             statusChan := (if length (chBuf (statusChan df)) < chCap (statusChan df)
                then (statusChan df)\<lparr>chBuf := chBuf (statusChan df) @
                   [\<lparr>Health = StatusDegraded, Message = itoa (errorCount df + 1) @ '' connection errors - '' @ e\<rparr>]\<rparr>
                else statusChan df)\<rparr>"
    have r: "recordError t e df = Inr df1"
      unfolding df1_def using Cons.prems(1) by (rule recordError_open)
    have c: "\<not> chClosed (statusChan df1)" using Cons.prems(1) by (simp add: df1_def)
    have m: "maxErrors df1 = 5" using Cons.prems(2) by (simp add: df1_def)
    have l: "lastErrors df1 = last5 (acc @ [?m])"
      using Cons.prems(2,3) by (simp add: df1_def last5_snoc)
    have n: "errorCount df1 = int (length (acc @ [?m]))"
      using Cons.prems(4) by (simp add: df1_def)
    from Cons.IH [OF c m l n] r OpRecord show ?thesis by simp
  next
    case OpClear
    have "\<not> chClosed (statusChan (clearErrors df))" "maxErrors (clearErrors df) = 5"
      "lastErrors (clearErrors df) = last5 []" "errorCount (clearErrors df) = int (length ([]::string list))"
      using Cons.prems by (simp_all add: clearErrors_def last5_def)
    from Cons.IH [OF this] OpClear show ?thesis by simp
  qed
qed

text \<open>
  C9. From a new engine, after any sequence of \<open>recordError\<close> and \<open>clearErrors\<close> calls
  no call has panicked, at most 5 errors are stored, they are the last five of the
  messages \<open>HH:MM:SS: message\<close> recorded since the last \<open>clearErrors\<close>, and the counter
  is the number of those messages. On an open status channel \<open>recordError\<close> adds
  exactly one to the counter and sends one \<open>Degraded\<close> update if the buffer has room, none
  otherwise; \<open>clearErrors\<close> sets the counter to 0 and empties the list.
\<close>

theorem C9_error_window:
  "(\<exists>df'. apply_ops ops (NewDynamicForwarder path hosts) = Inr df'
      \<and> length (lastErrors df') \<le> 5
      \<and> lastErrors df' = last5 (recorded ops [])
      \<and> errorCount df' = int (length (recorded ops [])))
   \<and> (\<not> chClosed (statusChan df) \<longrightarrow>
        (\<exists>df'. recordError t e df = Inr df'
           \<and> errorCount df' = errorCount df + 1
           \<and> statusChan df' =
               (if length (chBuf (statusChan df)) < chCap (statusChan df)
                then (statusChan df)\<lparr>chBuf := chBuf (statusChan df) @
                   [\<lparr>Health = StatusDegraded,
                     Message = itoa (errorCount df + 1) @ '' connection errors - '' @ e\<rparr>]\<rparr>
                else statusChan df)))
   \<and> errorCount (clearErrors df) = 0 \<and> lastErrors (clearErrors df) = []"
proof -
  have "\<exists>df'. apply_ops ops (NewDynamicForwarder path hosts) = Inr df'
      \<and> \<not> chClosed (statusChan df') \<and> maxErrors df' = 5
      \<and> lastErrors df' = last5 (recorded ops [])
      \<and> errorCount df' = int (length (recorded ops []))"
    by (rule apply_ops_inv) (simp_all add: NewDynamicForwarder_def last5_def)
  then have a: "\<exists>df'. apply_ops ops (NewDynamicForwarder path hosts) = Inr df'
      \<and> length (lastErrors df') \<le> 5
      \<and> lastErrors df' = last5 (recorded ops [])
      \<and> errorCount df' = int (length (recorded ops []))"
    using length_last5 by metis
  show ?thesis using a by (simp add: recordError_open clearErrors_def)
qed


theorem C9_error_window_witness:
  "(\<exists>df'. apply_ops six_errors fresh_engine = Inr df'
      \<and> lastErrors df' = [''09:05:30: e2'', ''09:05:30: e3'', ''09:05:30: e4'',
                            ''09:05:30: e5'', ''09:05:30: e6'']
      \<and> errorCount df' = 6)
   \<and> \<not> chClosed (statusChan fresh_engine)
   \<and> (\<exists>df'. recordError \<lparr> hour = 23, minute = 59, second = 7 \<rparr> ''boom'' fresh_engine = Inr df'
          \<and> errorCount df' = 1
          \<and> chBuf (statusChan df') =
              [\<lparr>Health = StatusDegraded, Message = ''1 connection errors - boom''\<rparr>])"
proof -
  have ev: "last5 (recorded six_errors []) =
      [''09:05:30: e2'', ''09:05:30: e3'', ''09:05:30: e4'', ''09:05:30: e5'', ''09:05:30: e6'']"
    "length (recorded six_errors []) = 6" "itoa 1 = ''1''"
    by code_simp+
  have op: "\<not> chClosed (statusChan fresh_engine)" "errorCount fresh_engine = 0"
    "chBuf (statusChan fresh_engine) = []" "chCap (statusChan fresh_engine) = 10"
    by (simp_all add: fresh_engine_def NewDynamicForwarder_def)
  show ?thesis
    using C9_error_window [of six_errors "''config.yaml''" "[]" fresh_engine
        "\<lparr> hour = 23, minute = 59, second = 7 \<rparr>" "''boom''"] ev op
    by (auto simp: fresh_engine_def)
qed

subsection \<open>Stopping the engine\<close>

lemma own_events_append: "own_events (a @ b) = own_events a @ own_events b"
  by (simp add: own_events_def)

lemma runHelper_trace: "snd (runHelper ok args tr) = tr @ [Helper args]"
  by (simp add: runHelper_def)

lemma fold_remove_host:
  "\<exists>new. fold (\<lambda>hostname t. snd (runHelper ok [''remove-host'', ip, hostname] t)) hs tr = tr @ new
     \<and> own_events new = []"
proof (induction hs arbitrary: tr)
  case Nil
  then show ?case by (simp add: own_events_def)
next
  case (Cons h hs)
  obtain new where
    "fold (\<lambda>hostname t. snd (runHelper ok [''remove-host'', ip, hostname] t)) hs
       (tr @ [Helper [''remove-host'', ip, h]]) = (tr @ [Helper [''remove-host'', ip, h]]) @ new"
    "own_events new = []"
    using Cons.IH by blast
  then show ?case
    by (simp add: runHelper_def own_events_def is_helper_def)
qed

lemma run_undo_trace:
  "\<exists>new. snd (run_undo ok u tr) = tr @ new \<and> own_events new = []"
proof (cases u)
  case (UndoHosts ip hs)
  then show ?thesis using fold_remove_host [of ok ip hs tr] by simp
qed (auto simp: runHelper_def own_events_def is_helper_def split: bool.splits)

lemma run_undos_trace:
  "\<exists>new. run_undos ok us tr = tr @ new \<and> own_events new = map CallUndo us"
proof (induction us arbitrary: tr)
  case Nil
  then show ?case by (simp add: run_undos_def own_events_def)
next
  case (Cons u us)
  obtain n1 where n1: "snd (run_undo ok u (tr @ [CallUndo u])) = (tr @ [CallUndo u]) @ n1"
    "own_events n1 = []"
    using run_undo_trace by blast
  obtain n2 where n2: "run_undos ok us ((tr @ [CallUndo u]) @ n1) = ((tr @ [CallUndo u]) @ n1) @ n2"
    "own_events n2 = map CallUndo us"
    using Cons.IH by blast
  have "run_undos ok (u # us) tr = tr @ ([CallUndo u] @ n1 @ n2)"
    using n1 n2 by (simp add: run_undos_def)
  moreover have "own_events ([CallUndo u] @ n1 @ n2) = map CallUndo (u # us)"
    using n1 n2 by (simp add: own_events_append) (simp add: own_events_def is_helper_def)
  ultimately show ?case by blast
qed

text \<open>
  C4 (as amended). \<open>Stop\<close> on a started engine whose status channel is open returns nil,
  and its effects are, in this order: the engine is marked not running, the status
  channel is closed, the SSH pool is closed, and the undo closures are called from the
  last one accumulated to the first.
\<close>

theorem C4_stop_order:
  assumes "running df" and "\<not> chClosed (statusChan df)"
  shows "result_error (Stop env df) = Some None
    \<and> map_option running (result_state (Stop env df)) = Some False
    \<and> map_option (\<lambda>df'. chClosed (statusChan df')) (result_state (Stop env df)) = Some True
    \<and> stop_effects env df =
        Some ([SetRunning False, CloseStatusChan, ClosePool] @ map CallUndo (rev (cleanup df)))"
proof -
  obtain new where new:
    "run_undos (helper_ok env) (rev (cleanup df))
       (trace df @ [SetRunning False] @ [CloseStatusChan, ClosePool])
     = (trace df @ [SetRunning False] @ [CloseStatusChan, ClosePool]) @ new"
    "own_events new = map CallUndo (rev (cleanup df))"
    using run_undos_trace by blast
  show ?thesis
    using assms new
    by (simp add: Stop_def Close_def close_chan_def result_error_def result_state_def
        returned_def stop_effects_def own_events_append)
       (simp add: own_events_def is_helper_def)
qed



theorem C4_stop_order_witness:
  "running started_engine \<and> \<not> chClosed (statusChan started_engine)
   \<and> stop_effects example_env started_engine =
       Some [SetRunning False, CloseStatusChan, ClosePool,
             CallUndo (UndoPFRedirect ''127.0.0.2'' 443 10443),
             CallUndo (UndoPFRedirect ''127.0.0.2'' 80 10080),
             CallUndo (UndoHosts ''127.0.0.2'' [''app.internal.example.com'']),
             CallUndo (UndoAlias ''127.0.0.2'')]"
proof -
  have a: "running started_engine" by code_simp
  have b: "\<not> chClosed (statusChan started_engine)" by code_simp
  have c: "cleanup started_engine =
     [UndoAlias ''127.0.0.2'', UndoHosts ''127.0.0.2'' [''app.internal.example.com''],
      UndoPFRedirect ''127.0.0.2'' 80 10080, UndoPFRedirect ''127.0.0.2'' 443 10443]"
    by code_simp
  show ?thesis using C4_stop_order [OF a b, of example_env] a b c by simp
qed

text \<open>
  C4 as stated (the undo closures first, then the pool, the status channel last) does
  not hold: on the engine started from the example configuration the status channel is
  closed before the pool and before every undo closure.
\<close>

theorem C4_status_channel_closed_first:
  "stop_effects example_env started_engine \<noteq>
     Some ([SetRunning False] @ map CallUndo (rev (cleanup started_engine))
           @ [ClosePool, CloseStatusChan])"
  by code_simp

subsection \<open>Recording an error after shutdown\<close>

lemma recordError_closed:
  "chClosed (statusChan df) \<Longrightarrow> recordError t e df = Inl SendOnClosedChannel"
  by (simp add: recordError_def try_send_def Let_def)

text \<open>
  C10. After \<open>Stop\<close> has returned the status channel is closed, and a connection
  handler whose \<open>GetClient\<close> fails calls \<open>recordError\<close>, whose send on the closed channel
  panics: the \<open>select\<close> with a \<open>default\<close> case does not protect the sender. The
  witness is such an execution: the engine is started and stopped, then a handler of
  an accepted connection runs and the jump host refuses the dial.
\<close>

theorem C10_record_after_stop_panics:
  assumes "running df"
    and "Stop env df = Return (r, df')"
    and "GetClient (first_get cenv) (fJumpHost cfg) (fJumpPort cfg) (fKeyPath cfg)
           (fIdentityAgent cfg) (sshPool df') = Some (Inl err, pool')"
  shows "chClosed (statusChan df') \<and> forwardConnection cenv cfg df' = Panic SendOnClosedChannel"
proof -
  have c: "chClosed (statusChan df')"
    using assms(1,2)
    by (auto simp: Stop_def Close_def close_chan_def split: if_splits sum.splits)
  then have "recordError (now cenv) (''SSH client error for '' @ fJumpHost cfg @ '': '' @ err)
      (df'\<lparr>sshPool := pool'\<rparr>) = Inl SendOnClosedChannel"
    by (simp add: recordError_closed)
  with c assms(3) show ?thesis
    by (simp add: forwardConnection_def record_exec_def Let_def)
qed

theorem C10_record_after_stop_panics_witness:
  "running started_engine
   \<and> result_state (Stop example_env started_engine) = Some stopped_engine
   \<and> map_option fst (GetClient refused_pool_env ''jump.example.com'' 22 ''~/.ssh/id_rsa'' []
        (sshPool stopped_engine))
      = Some (Inl ''failed to dial jump host jump.example.com:22 (attempt 1/3): dial tcp: connect: connection refused'')
   \<and> forwardConnection refused_conn_env (NewForwardConfig example_host 5432) stopped_engine
      = Panic SendOnClosedChannel"
proof -
  have a: "running started_engine" by code_simp
  have b: "Stop example_env started_engine = Return (None, stopped_engine)" by code_simp
  have g: "GetClient (first_get refused_conn_env) (fJumpHost (NewForwardConfig example_host 5432))
      (fJumpPort (NewForwardConfig example_host 5432)) (fKeyPath (NewForwardConfig example_host 5432))
      (fIdentityAgent (NewForwardConfig example_host 5432)) (sshPool stopped_engine)
     = Some (Inl ''failed to dial jump host jump.example.com:22 (attempt 1/3): dial tcp: connect: connection refused'',
             snd (the (GetClient refused_pool_env ''jump.example.com'' 22 ''~/.ssh/id_rsa'' [] (sshPool stopped_engine))))"
    by code_simp
  have g': "map_option fst (GetClient refused_pool_env ''jump.example.com'' 22 ''~/.ssh/id_rsa'' []
        (sshPool stopped_engine))
      = Some (Inl ''failed to dial jump host jump.example.com:22 (attempt 1/3): dial tcp: connect: connection refused'')"
    by code_simp
  show ?thesis
    using C10_record_after_stop_panics [OF a b g] a b g'
    by (simp add: result_state_def returned_def)
qed

subsection \<open>A failing start\<close>

text \<open>
  C1 says that a \<open>Start\<close> that fails after the bulk cleanup calls every undo closure
  returned so far, in reverse, before it returns. The code returns at once. With the
  range \<open>100-50\<close> in the port list, \<open>Start\<close> fails after \<open>add-alias\<close> and \<open>add-host\<close> have
  succeeded; no \<open>remove-alias\<close> or \<open>remove-host\<close> is invoked, the engine is not running,
  and a later \<open>Stop\<close> does nothing. When the helper refuses \<open>add-host\<close>, \<open>Start\<close> fails
  after \<open>add-alias\<close> has succeeded, nothing is removed, and the undo closure that
  \<open>SetupNetwork\<close> returned with the error is dropped.
\<close>

theorem C1_start_leaves_mutations:
  "result_error (Start reversed_env fresh_engine)
     = Some (Some (ExpandFailed (ReversedRange ''100-50'' 100 50)))
   \<and> start_trace reversed_env fresh_engine
     = Some [Helper [''remove-pf-redirects''], Helper [''remove-hosts''], Helper [''remove-aliases''],
             Helper [''add-alias'', ''127.0.0.2''],
             Helper [''add-host'', ''127.0.0.2'', ''app.internal.example.com'']]
   \<and> map_option running (result_state (Start reversed_env fresh_engine)) = Some False
   \<and> result_state (and_then (Start reversed_env fresh_engine) (\<lambda>(e, df). Stop reversed_env df))
     = result_state (Start reversed_env fresh_engine)
   \<and> result_error (Start refusing_env fresh_engine)
     = Some (Some (HelperFailed [''add-host'', ''127.0.0.2'', ''app.internal.example.com'']))
   \<and> start_trace refusing_env fresh_engine
     = Some [Helper [''remove-pf-redirects''], Helper [''remove-hosts''], Helper [''remove-aliases''],
             Helper [''add-alias'', ''127.0.0.2''],
             Helper [''add-host'', ''127.0.0.2'', ''app.internal.example.com'']]
   \<and> map_option cleanup (result_state (Start refusing_env fresh_engine)) = Some []"
  by code_simp

subsection \<open>Default hostnames\<close>

text \<open>
  C8. For every host of a loaded configuration whose hostnames list was omitted (it is
  empty after unmarshalling): if \<open>remote_host\<close> is not an IP literal the effective list
  is \<open>[remote_host]\<close>; if it is one the list stays empty and the warning is logged.
\<close>

theorem C8_default_hostnames:
  assumes "ReadFile env path = Inr data" and "Unmarshal env data = Inr raw"
    and "i < length raw" and "Hostnames (raw ! i) = []"
  shows "\<exists>hosts logged. LoadConfig env path = Inr (hosts, logged)
      \<and> length hosts = length raw
      \<and> RemoteHost (hosts ! i) = RemoteHost (raw ! i)
      \<and> Hostnames (hosts ! i) =
           (if isIPAddress env (RemoteHost (raw ! i)) then [] else [RemoteHost (raw ! i)])
      \<and> (isIPAddress env (RemoteHost (raw ! i)) \<longrightarrow> no_hostnames_warning (raw ! i) \<in> set logged)"
proof -
  have h: "Hostnames (fst (set_defaults env (raw ! i))) =
      (if isIPAddress env (RemoteHost (raw ! i)) then [] else [RemoteHost (raw ! i)])"
    and r: "RemoteHost (fst (set_defaults env (raw ! i))) = RemoteHost (raw ! i)"
    and w: "isIPAddress env (RemoteHost (raw ! i)) \<longrightarrow>
      no_hostnames_warning (raw ! i) \<in> set (snd (set_defaults env (raw ! i)))"
    using assms(4) by (simp_all add: set_defaults_def Let_def no_hostnames_warning_def)
  have m: "raw ! i \<in> set raw" using assms(3) by simp
  show ?thesis
    using assms(1,2,3) h r w m by (auto simp: LoadConfig_def)
qed

theorem C8_default_hostnames_witness:
  "map_sum id (\<lambda>(hosts, logged). (map Hostnames hosts, logged)) (LoadConfig bare_env ''config.yaml'')
     = Inr ([[''app.internal.example.com''], []],
            [''Warning: Host with remote_host=10.0.0.5 has no hostnames. Access via local IP 127.0.0.3 only.''])"
proof -
  have a: "ReadFile bare_env ''config.yaml'' = Inr ''hosts: ...''"
    and b: "Unmarshal bare_env ''hosts: ...'' = Inr bare_hosts"
    by (simp_all add: bare_env_def example_config_env_def)
  have c: "(1::nat) < length bare_hosts" and d: "Hostnames (bare_hosts ! 1) = []"
    by (simp_all add: bare_hosts_def)
  have e: "map_sum id (\<lambda>(hosts, logged). (map Hostnames hosts, logged)) (LoadConfig bare_env ''config.yaml'')
     = Inr ([[''app.internal.example.com''], []],
            [''Warning: Host with remote_host=10.0.0.5 has no hostnames. Access via local IP 127.0.0.3 only.''])"
    by code_simp
  show ?thesis using C8_default_hostnames [OF a b c d] e by simp
qed

subsection \<open>The resolver file\<close>

lemma Split_nl_ne: "Split_nl s \<noteq> []"
  by (induction s) auto

lemma Split_nl_append: "Split_nl (xs @ LF # ys) = Split_nl xs @ Split_nl ys"
proof (induction xs)
  case Nil
  then show ?case by simp
next
  case (Cons x xs)
  then show ?case using Split_nl_ne [of xs] by (cases "Split_nl xs") auto
qed

lemma Split_nl_single: "LF \<notin> set l \<Longrightarrow> Split_nl l = [l]"
  by (induction l) auto

lemma Join_nl_append:
  "as \<noteq> [] \<Longrightarrow> bs \<noteq> [] \<Longrightarrow> Join_nl (as @ bs) = Join_nl as @ LF # Join_nl bs"
proof (induction as rule: Join_nl.induct)
  case 1
  then show ?case by simp
next
  case (2 l)
  then show ?case by (cases bs) auto
next
  case (3 l l' ls)
  then show ?case by simp
qed

lemma Join_Split: "Join_nl (Split_nl s) = s"
proof (induction s)
  case Nil
  then show ?case by simp
next
  case (Cons c s)
  show ?case
  proof (cases "c = LF")
    case True
    then show ?thesis using Cons Split_nl_ne [of s] by (cases "Split_nl s") auto
  next
    case False
    then show ?thesis using Cons Split_nl_ne [of s]
      by (cases "Split_nl s") (auto, case_tac list, auto)
  qed
qed

lemma Contains_iff: "Contains s sub \<longleftrightarrow> (\<exists>a b. s = a @ sub @ b)"
proof (induction s)
  case Nil
  then show ?case by auto
next
  case (Cons c cs)
  show ?case
  proof
    assume "Contains (c # cs) sub"
    then consider "prefix sub (c # cs)" | "Contains cs sub" by auto
    then show "\<exists>a b. c # cs = a @ sub @ b"
    proof cases
      case 1
      then obtain b where "c # cs = sub @ b" by (auto simp: prefix_def)
      then have "c # cs = [] @ sub @ b" by simp
      then show ?thesis by blast
    next
      case 2
      then obtain a b where "cs = a @ sub @ b" using Cons by blast
      then have "c # cs = (c # a) @ sub @ b" by simp
      then show ?thesis by blast
    qed
  next
    assume "\<exists>a b. c # cs = a @ sub @ b"
    then obtain a b where ab: "c # cs = a @ sub @ b" by blast
    show "Contains (c # cs) sub"
    proof (cases a)
      case Nil
      then have "prefix sub (c # cs)" using ab by (metis append_Nil prefixI)
      then show ?thesis by simp
    next
      case (Cons a' as)
      then have "cs = as @ sub @ b" using ab by simp
      then show ?thesis using Cons.IH by auto
    qed
  qed
qed


lemma validateHostname_no_LF: "validateHostname hostname = None \<Longrightarrow> LF \<notin> set hostname"
  by (auto simp: validateHostname_def ContainsAny_def list_ex_iff split: if_splits)

lemma hostsMarker_no_LF: "LF \<notin> set hostsMarker"
  by (simp add: hostsMarker_def LF_def)

lemma hosts_entry_no_LF:
  "LF \<notin> set ip \<Longrightarrow> LF \<notin> set hostname \<Longrightarrow> LF \<notin> set (hosts_entry ip hostname)"
  using hostsMarker_no_LF by (simp add: hosts_entry_def LF_def)

lemma hosts_entry_matches: "entry_matches ip hostname (hosts_entry ip hostname)"
proof -
  have "hosts_entry ip hostname = (ip @ '' '' @ hostname @ '' '') @ hostsMarker @ []"
    "hosts_entry ip hostname = (ip @ '' '') @ hostname @ ('' '' @ hostsMarker)"
    "hosts_entry ip hostname = [] @ ip @ ('' '' @ hostname @ '' '' @ hostsMarker)"
    by (simp_all add: hosts_entry_def)
  then show ?thesis unfolding entry_matches_def Contains_iff by blast
qed

lemma empty_line_no_match: "\<not> entry_matches ip hostname []"
  by (simp add: entry_matches_def hostsMarker_def)

lemma ensure_newline_split:
  "\<exists>c0. ensure_newline content = c0 @ [LF] \<and> set (Split_nl c0) \<subseteq> set (Split_nl content)"
proof (cases "HasSuffix content [LF]")
  case True
  then obtain c0 where c0: "content = c0 @ [LF]" by (auto simp: HasSuffix_def suffix_def)
  then have "Split_nl content = Split_nl c0 @ [[]]" using Split_nl_append [of c0 "[]"] by simp
  with c0 True show ?thesis by (auto simp: ensure_newline_def)
next
  case False
  then show ?thesis by (auto simp: ensure_newline_def)
qed

lemma addHost_new:
  assumes "validateIP ParseIP ip = None" and "validateHostname hostname = None"
    and "\<not> list_ex (entry_matches ip hostname) (Split_nl content)"
  shows "addHost ParseIP ip hostname (Some content)
    = (None, Some (ensure_newline content @ hosts_entry ip hostname @ [LF]))"
  using assms by (simp add: addHost_def Let_def ensure_newline_def hosts_entry_def)

lemma added_lines:
  assumes "LF \<notin> set ip" and "LF \<notin> set hostname" and "ensure_newline content = c0 @ [LF]"
  shows "Split_nl (ensure_newline content @ hosts_entry ip hostname @ [LF])
    = Split_nl c0 @ [hosts_entry ip hostname, []]"
proof -
  have "ensure_newline content @ hosts_entry ip hostname @ [LF]
      = c0 @ LF # (hosts_entry ip hostname @ LF # [])"
    using assms(3) by simp
  then have "Split_nl (ensure_newline content @ hosts_entry ip hostname @ [LF])
      = Split_nl c0 @ Split_nl (hosts_entry ip hostname) @ Split_nl []"
    by (simp only: Split_nl_append)
  then show ?thesis
    using Split_nl_single [OF hosts_entry_no_LF [OF assms(1,2)]] by simp
qed

lemma add_then_remove:
  assumes "validateIP ParseIP ip = None" and "validateHostname hostname = None"
    and "LF \<notin> set ip"
    and "\<not> list_ex (entry_matches ip hostname) (Split_nl content)"
  shows "snd (removeHost ParseIP ip hostname (snd (addHost ParseIP ip hostname (Some content))))
      = Some (if HasSuffix content [LF] then content else content @ [LF])
    \<and> addHost ParseIP ip hostname (snd (addHost ParseIP ip hostname (Some content)))
      = (None, snd (addHost ParseIP ip hostname (Some content)))
    \<and> (\<exists>added. snd (addHost ParseIP ip hostname (Some content)) = Some added
          \<and> filter (entry_matches ip hostname) (Split_nl added) = [hosts_entry ip hostname])"
proof -
  let ?e = "hosts_entry ip hostname"
  let ?added = "ensure_newline content @ ?e @ [LF]"
  have nl: "LF \<notin> set hostname" using assms(2) by (rule validateHostname_no_LF)
  obtain c0 where c0: "ensure_newline content = c0 @ [LF]"
    and sub: "set (Split_nl c0) \<subseteq> set (Split_nl content)"
    using ensure_newline_split by blast
  have add: "addHost ParseIP ip hostname (Some content) = (None, Some ?added)"
    using assms(1,2,4) by (rule addHost_new)
  have lines: "Split_nl ?added = Split_nl c0 @ [?e, []]"
    using assms(3) nl c0 by (rule added_lines)
  have none: "filter (entry_matches ip hostname) (Split_nl c0) = []"
    "filter (\<lambda>line. \<not> entry_matches ip hostname line) (Split_nl c0) = Split_nl c0"
    using assms(4) sub by (auto simp: list_ex_iff filter_empty_conv filter_id_conv)
  have kept: "filter (\<lambda>line. \<not> entry_matches ip hostname line) (Split_nl ?added) = Split_nl c0 @ [[]]"
    using lines none hosts_entry_matches empty_line_no_match by simp
  have found: "filter (entry_matches ip hostname) (Split_nl ?added) = [?e]"
    using lines none hosts_entry_matches empty_line_no_match by simp
  have "Join_nl (Split_nl c0 @ [[]]) = c0 @ [LF]"
    using Join_nl_append [of "Split_nl c0" "[[]]"] Split_nl_ne [of c0] by (simp add: Join_Split)
  then have rem: "removeHost ParseIP ip hostname (Some ?added) = (None, Some (ensure_newline content))"
    using assms(1,2) kept c0 by (simp add: removeHost_def Let_def)
  have ex: "list_ex (entry_matches ip hostname) (Split_nl ?added)"
    using lines hosts_entry_matches by (simp add: list_ex_iff)
  have again: "addHost ParseIP ip hostname (Some ?added) = (None, Some ?added)"
    using assms(1,2) ex by (simp add: addHost_def Let_def)
  show ?thesis
    using add rem again found by (simp add: ensure_newline_def)
qed

text \<open>
  C3 (as amended). For arguments the helper accepts (the text of an IP literal has no
  newline) and every resolver-file content with no line matching (marker, name, ip): \<open>add-host\<close> then \<open>remove-host\<close> leaves the content itself
  when it ends in a newline, and the content followed by one newline otherwise; a
  second \<open>add-host\<close> changes nothing, and after \<open>add-host\<close> exactly one line matches the
  pair, the line \<open>ip name marker\<close>.
\<close>

theorem C3_add_remove_host:
  assumes "validateIP ParseIP ip = None" and "validateHostname hostname = None"
    and "LF \<notin> set ip"
    and "\<not> list_ex (entry_matches ip hostname) (Split_nl content)"
  shows "snd (removeHost ParseIP ip hostname (snd (addHost ParseIP ip hostname (Some content))))
      = Some (if HasSuffix content [LF] then content else content @ [LF])
    \<and> addHost ParseIP ip hostname (snd (addHost ParseIP ip hostname (Some content)))
      = (None, snd (addHost ParseIP ip hostname (Some content)))
    \<and> (\<exists>added. snd (addHost ParseIP ip hostname (Some content)) = Some added
          \<and> filter (entry_matches ip hostname) (Split_nl added) = [hosts_entry ip hostname])"
  using assms by (rule add_then_remove)

theorem C3_add_remove_host_witness:
  "snd (removeHost example_ParseIP ''127.0.0.2'' ''test.local''
          (snd (addHost example_ParseIP ''127.0.0.2'' ''test.local''
             (Some (''127.0.0.1 localhost'' @ [LF])))))
     = Some (''127.0.0.1 localhost'' @ [LF])
   \<and> snd (addHost example_ParseIP ''127.0.0.2'' ''test.local''
          (snd (addHost example_ParseIP ''127.0.0.2'' ''test.local''
             (Some (''127.0.0.1 localhost'' @ [LF])))))
     = Some (''127.0.0.1 localhost'' @ [LF]
             @ ''127.0.0.2 test.local # portsmith-dynamic-forward'' @ [LF])"
proof -
  have a: "validateIP example_ParseIP ''127.0.0.2'' = None" by code_simp
  have b: "validateHostname ''test.local'' = None" by code_simp
  have c: "LF \<notin> set ''127.0.0.2''" by code_simp
  have d: "\<not> list_ex (entry_matches ''127.0.0.2'' ''test.local'')
      (Split_nl (''127.0.0.1 localhost'' @ [LF]))" by code_simp
  have e: "HasSuffix (''127.0.0.1 localhost'' @ [LF]) [LF]" by code_simp
  have f: "snd (addHost example_ParseIP ''127.0.0.2'' ''test.local''
             (Some (''127.0.0.1 localhost'' @ [LF])))
     = Some (''127.0.0.1 localhost'' @ [LF]
             @ ''127.0.0.2 test.local # portsmith-dynamic-forward'' @ [LF])"
    using addHost_new [OF a b d] e by (simp add: ensure_newline_def hosts_entry_def hostsMarker_def)
  note t = C3_add_remove_host [OF a b c d]
  have r1: "snd (removeHost example_ParseIP ''127.0.0.2'' ''test.local''
          (snd (addHost example_ParseIP ''127.0.0.2'' ''test.local''
             (Some (''127.0.0.1 localhost'' @ [LF])))))
     = Some (''127.0.0.1 localhost'' @ [LF])"
    using t e by (simp only: if_True)
  have "snd (addHost example_ParseIP ''127.0.0.2'' ''test.local''
          (snd (addHost example_ParseIP ''127.0.0.2'' ''test.local''
             (Some (''127.0.0.1 localhost'' @ [LF])))))
     = snd (addHost example_ParseIP ''127.0.0.2'' ''test.local''
             (Some (''127.0.0.1 localhost'' @ [LF])))"
    using t by (simp only: snd_conv)
  then have r2: "snd (addHost example_ParseIP ''127.0.0.2'' ''test.local''
          (snd (addHost example_ParseIP ''127.0.0.2'' ''test.local''
             (Some (''127.0.0.1 localhost'' @ [LF])))))
     = Some (''127.0.0.1 localhost'' @ [LF]
             @ ''127.0.0.2 test.local # portsmith-dynamic-forward'' @ [LF])"
    using f by (rule trans)
  from r1 r2 show ?thesis by (rule conjI)
qed

text \<open>
  C3 as stated fails on a file that does not end in a newline: \<open>add-host\<close> first
  appends the missing newline, and \<open>remove-host\<close> leaves it there.
\<close>

theorem C3_no_trailing_newline:
  "validateIP example_ParseIP ''127.0.0.2'' = None
   \<and> validateHostname ''test.local'' = None
   \<and> \<not> list_ex (entry_matches ''127.0.0.2'' ''test.local'') (Split_nl ''127.0.0.1 localhost'')
   \<and> snd (removeHost example_ParseIP ''127.0.0.2'' ''test.local''
          (snd (addHost example_ParseIP ''127.0.0.2'' ''test.local'' (Some ''127.0.0.1 localhost''))))
     = Some (''127.0.0.1 localhost'' @ [LF])
   \<and> snd (removeHost example_ParseIP ''127.0.0.2'' ''test.local''
          (snd (addHost example_ParseIP ''127.0.0.2'' ''test.local'' (Some ''127.0.0.1 localhost''))))
     \<noteq> Some ''127.0.0.1 localhost''"
proof -
  have a: "validateIP example_ParseIP ''127.0.0.2'' = None" by code_simp
  have b: "validateHostname ''test.local'' = None" by code_simp
  have c: "LF \<notin> set ''127.0.0.2''" by code_simp
  have d: "\<not> list_ex (entry_matches ''127.0.0.2'' ''test.local'')
      (Split_nl ''127.0.0.1 localhost'')" by code_simp
  have e: "\<not> HasSuffix ''127.0.0.1 localhost'' [LF]" by code_simp
  show ?thesis using add_then_remove [OF a b c d] a b d e by simp
qed

subsection \<open>Removing the registered aliases\<close>

lemma TrimSpace_Nil: "TrimSpace [] = []"
  by (simp add: TrimSpace_def leading_space_len_Nil trailing_space_len_Nil)

lemma loadAliases_cleared: "loadAliases (Some []) = []"
  by (simp add: loadAliases_def TrimSpace_Nil)

lemma remove_each_filter:
  "fst (remove_each aliases lo0 n) = filter (\<lambda>a. a \<notin> set aliases) lo0"
proof (induction aliases arbitrary: lo0 n)
  case Nil
  then show ?case by simp
next
  case (Cons ip rest)
  have a: "filter (\<lambda>a. a \<notin> set rest) (removeAll ip lo0) = filter (\<lambda>a. a \<notin> set (ip # rest)) lo0"
    by (induction lo0) auto
  have "fst (remove_each (ip # rest) lo0 n) = filter (\<lambda>a. a \<notin> set rest) (removeAll ip lo0)"
    by (cases "ip \<in> set lo0") (simp_all add: ifconfig_remove_alias_def Cons.IH del: removeAll_id)
  then show ?case using a by (simp only:)
qed

text \<open>
  C2. For every state of the interface and of the registry, \<open>remove-aliases\<close> succeeds,
  the addresses left on the interface are those that were there and are not listed in
  the registry, in their order, and the registry is empty afterwards.
\<close>

theorem C2_remove_aliases:
  "fst (removeAliasesDarwin lo0 file) = None
   \<and> fst (snd (removeAliasesDarwin lo0 file)) = filter (\<lambda>a. a \<notin> set (loadAliases file)) lo0
   \<and> set (fst (snd (removeAliasesDarwin lo0 file))) = set lo0 - set (loadAliases file)
   \<and> loadAliases (snd (snd (removeAliasesDarwin lo0 file))) = []"
proof (cases "loadAliases file = []")
  case True
  then show ?thesis by (simp add: removeAliasesDarwin_def)
next
  case False
  then show ?thesis
    by (auto simp: removeAliasesDarwin_def Let_def remove_each_filter loadAliases_cleared)
qed

lemma example_registry_loaded: "loadAliases example_registry = [''127.0.0.2'', ''127.0.0.3'']"
  by code_simp

theorem C2_remove_aliases_witness:
  "fst (snd (removeAliasesDarwin [''127.0.0.1'', ''127.0.0.2'', ''127.0.0.9''] example_registry))
     = [''127.0.0.1'', ''127.0.0.9'']
   \<and> loadAliases (snd (snd (removeAliasesDarwin [''127.0.0.1'', ''127.0.0.2'', ''127.0.0.9'']
        example_registry))) = []"
  using C2_remove_aliases [of "[''127.0.0.1'', ''127.0.0.2'', ''127.0.0.9'']" example_registry]
  by (simp add: example_registry_loaded)

subsection \<open>The transport cache\<close>
















text \<open>
  A call that runs alone takes its steps one after the other, and that is \<open>GetClient\<close>.
\<close>

lemma alone_is_GetClient:
  assumes "gPc c = NotStarted"
    and "GetClient (gEnv c) jumpHost jumpPort (gKeyPath c) (gIdentityAgent c) pool = Some (r, pool')"
  shows "run_schedule jumpHost jumpPort [0, 0] (pool, [c]) = (pool', [c\<lparr>gPc := Finished r\<rparr>])"
proof (cases "gc_lookup jumpHost jumpPort (gKeyPath c) (gIdentityAgent c) pool")
  case (Inl client)
  with assms show ?thesis
    by (simp add: run_schedule_def sched_step_def call_step_def GetClient_def)
next
  case (Inr b)
  show ?thesis
  proof (cases b)
    case True
    with Inr assms show ?thesis
      by (simp add: run_schedule_def sched_step_def call_step_def GetClient_def)
  next
    case False
    with Inr assms show ?thesis
      by (auto simp: run_schedule_def sched_step_def call_step_def GetClient_def
          split: option.splits prod.splits)
  qed
qed



subsection \<open>Port expansion\<close>





























end
